theory Spec2Isabelle
  imports Complex_Main "HOL-Library.Sublist"
begin

section \<open>Data model of \<open>Gantt.tsx\<close>\<close>

text \<open>
  A JavaScript \<open>Date\<close> holds a time value: an integral number of milliseconds since the
  epoch with absolute value at most 8.64e15, or NaN (an ``Invalid Date'').
\<close>

datatype jsdate = ValidDate int | InvalidDate

text \<open>
  The numbers that the modelled code computes with: a finite number, NaN, or an infinity.
  (Negative zero is not distinguished from zero.)
\<close>

datatype jsnum = Num rat | NaN | PosInf | NegInf

datatype error = SyntaxError | TypeError | RangeError | SecurityError

text \<open>The interfaces \<open>Rank\<close>, \<open>RankPlan\<close>, \<open>Assignment\<close> and the marker type of \<open>GanttProps\<close>.\<close>

record Rank =
  rank_id :: string
  rank_name :: string

record RankPlan =
  rp_id :: string
  rp_name :: string
  rp_rankId :: string

datatype AssignmentType = TMain | TReliever

record Assignment =
  a_id :: string
  a_name :: "string option"
  a_type :: AssignmentType
  planStartDate :: jsdate
  planEndDate :: jsdate
  actualStartDate :: "jsdate option"
  actualEndDate :: "jsdate option"
  rankPlanId :: string

record Marker =
  m_id :: string
  m_date :: jsdate
  m_label :: string
  m_className :: "string option"

text \<open>
  The argument of the save handlers, \<open>Omit<T, "id">\<close>. For an optional field the outer
  \<open>option\<close> says whether the key is present in the object at all, the inner one whether its
  value is \<open>undefined\<close>: an object spread copies a present key even when its value is
  \<open>undefined\<close>.
\<close>

record RankData =
  rd_name :: string

record RankPlanData =
  rpd_name :: string
  rpd_rankId :: string

record AssignmentData =
  ad_name :: "string option option"
  ad_type :: AssignmentType
  ad_planStartDate :: jsdate
  ad_planEndDate :: jsdate
  ad_actualStartDate :: "jsdate option option"
  ad_actualEndDate :: "jsdate option option"
  ad_rankPlanId :: string

text \<open>The \<open>useState\<close> cells of the \<open>Gantt\<close> component.\<close>

record GanttState =
  ranks :: "Rank list"
  rankPlans :: "RankPlan list"
  assignments :: "Assignment list"
  markers :: "Marker list"
  rankModalOpen :: bool
  rankPlanModalOpen :: bool
  assignmentModalOpen :: bool
  editingRank :: "Rank option"
  editingRankPlan :: "RankPlan option"
  editingAssignment :: "Assignment option"
  selectedRankForPlan :: "string option"
  selectedRankPlanForAssignment :: "string option"

section \<open>Handlers of the domain store\<close>

text \<open>\<open>{ ...r, ...rankData }\<close> and its siblings: the fields of the form data replace those
  of the stored entity, the id stays.\<close>

definition mergeRank :: "Rank \<Rightarrow> RankData \<Rightarrow> Rank" where
  "mergeRank r d = r\<lparr>rank_name := rd_name d\<rparr>"

definition mergeRankPlan :: "RankPlan \<Rightarrow> RankPlanData \<Rightarrow> RankPlan" where
  "mergeRankPlan rp d = rp\<lparr>rp_name := rpd_name d, rp_rankId := rpd_rankId d\<rparr>"

definition overrideField :: "'a \<Rightarrow> 'a option \<Rightarrow> 'a" where
  "overrideField old new = (case new of None \<Rightarrow> old | Some v \<Rightarrow> v)"

definition mergeAssignment :: "Assignment \<Rightarrow> AssignmentData \<Rightarrow> Assignment" where
  "mergeAssignment a d =
     a\<lparr>a_name := overrideField (a_name a) (ad_name d),
       a_type := ad_type d,
       planStartDate := ad_planStartDate d,
       planEndDate := ad_planEndDate d,
       actualStartDate := overrideField (actualStartDate a) (ad_actualStartDate d),
       actualEndDate := overrideField (actualEndDate a) (ad_actualEndDate d),
       rankPlanId := ad_rankPlanId d\<rparr>"

text \<open>\<open>{ id: crypto.randomUUID(), ...data }\<close>; the fresh identifier is the argument \<open>uuid\<close>.\<close>

definition newRank :: "string \<Rightarrow> RankData \<Rightarrow> Rank" where
  "newRank uuid d = \<lparr>rank_id = uuid, rank_name = rd_name d\<rparr>"

definition newRankPlan :: "string \<Rightarrow> RankPlanData \<Rightarrow> RankPlan" where
  "newRankPlan uuid d = \<lparr>rp_id = uuid, rp_name = rpd_name d, rp_rankId = rpd_rankId d\<rparr>"

definition newAssignment :: "string \<Rightarrow> AssignmentData \<Rightarrow> Assignment" where
  "newAssignment uuid d =
     \<lparr>a_id = uuid,
      a_name = overrideField None (ad_name d),
      a_type = ad_type d,
      planStartDate = ad_planStartDate d,
      planEndDate = ad_planEndDate d,
      actualStartDate = overrideField None (ad_actualStartDate d),
      actualEndDate = overrideField None (ad_actualEndDate d),
      rankPlanId = ad_rankPlanId d\<rparr>"

definition handleSaveRank :: "string \<Rightarrow> RankData \<Rightarrow> GanttState \<Rightarrow> GanttState" where
  "handleSaveRank uuid rankData st =
     (case editingRank st of
        Some e \<Rightarrow>
          st\<lparr>ranks := map (\<lambda>r. if rank_id r = rank_id e then mergeRank r rankData else r) (ranks st),
             rankModalOpen := False, editingRank := None\<rparr>
      | None \<Rightarrow>
          st\<lparr>ranks := ranks st @ [newRank uuid rankData],
             rankModalOpen := False, editingRank := None\<rparr>)"

definition handleSaveRankPlan :: "string \<Rightarrow> RankPlanData \<Rightarrow> GanttState \<Rightarrow> GanttState" where
  "handleSaveRankPlan uuid rankPlanData st =
     (case editingRankPlan st of
        Some e \<Rightarrow>
          st\<lparr>rankPlans :=
               map (\<lambda>rp. if rp_id rp = rp_id e then mergeRankPlan rp rankPlanData else rp)
                 (rankPlans st),
             rankPlanModalOpen := False, editingRankPlan := None, selectedRankForPlan := None\<rparr>
      | None \<Rightarrow>
          st\<lparr>rankPlans := rankPlans st @ [newRankPlan uuid rankPlanData],
             rankPlanModalOpen := False, editingRankPlan := None, selectedRankForPlan := None\<rparr>)"

definition handleSaveAssignment :: "string \<Rightarrow> AssignmentData \<Rightarrow> GanttState \<Rightarrow> GanttState" where
  "handleSaveAssignment uuid assignmentData st =
     (case editingAssignment st of
        Some e \<Rightarrow>
          st\<lparr>assignments :=
               map (\<lambda>a. if a_id a = a_id e then mergeAssignment a assignmentData else a)
                 (assignments st),
             assignmentModalOpen := False, editingAssignment := None,
             selectedRankPlanForAssignment := None\<rparr>
      | None \<Rightarrow>
          st\<lparr>assignments := assignments st @ [newAssignment uuid assignmentData],
             assignmentModalOpen := False, editingAssignment := None,
             selectedRankPlanForAssignment := None\<rparr>)"

text \<open>\<open>handleMoveAssignment\<close>: a drag without an end date changes nothing.\<close>

definition handleMoveAssignment :: "string \<Rightarrow> jsdate \<Rightarrow> jsdate option \<Rightarrow> GanttState \<Rightarrow> GanttState" where
  "handleMoveAssignment i start endAtArg st =
     (case endAtArg of
        None \<Rightarrow> st
      | Some e \<Rightarrow>
          st\<lparr>assignments :=
               map (\<lambda>a. if a_id a = i then a\<lparr>planStartDate := start, planEndDate := e\<rparr> else a)
                 (assignments st)\<rparr>)"

definition handleEditAssignment :: "Assignment \<Rightarrow> GanttState \<Rightarrow> GanttState" where
  "handleEditAssignment a st = st\<lparr>editingAssignment := Some a, assignmentModalOpen := True\<rparr>"

definition handleDeleteAssignment :: "string \<Rightarrow> GanttState \<Rightarrow> GanttState" where
  "handleDeleteAssignment i st = st\<lparr>assignments := filter (\<lambda>a. a_id a \<noteq> i) (assignments st)\<rparr>"

definition handleRemoveMarker :: "string \<Rightarrow> GanttState \<Rightarrow> GanttState" where
  "handleRemoveMarker i st = st\<lparr>markers := filter (\<lambda>m. m_id m \<noteq> i) (markers st)\<rparr>"

definition handleCreateMarker :: "string \<Rightarrow> jsdate \<Rightarrow> GanttState \<Rightarrow> GanttState" where
  "handleCreateMarker uuid d st =
     st\<lparr>markers := markers st @
          [\<lparr>m_id = uuid, m_date = d, m_label = ''New Marker'',
            m_className = Some ''bg-blue-100 text-blue-900''\<rparr>]\<rparr>"

section \<open>Grouping\<close>

text \<open>
  \<open>groupBy(collection, "key")\<close> of lodash: starting from an empty plain object, for each
  element in order, the element is pushed onto the array stored under its key when the
  result has that key as an own property, and a new one-element array is stored under the
  key otherwise. The map holds the own properties of the result.
\<close>

definition groupBy :: "('a \<Rightarrow> string) \<Rightarrow> 'a list \<Rightarrow> (string \<rightharpoonup> 'a list)" where
  "groupBy key xs =
     foldl (\<lambda>result v.
              case result (key v) of
                Some g \<Rightarrow> result(key v \<mapsto> g @ [v])
              | None \<Rightarrow> result(key v \<mapsto> [v]))
       Map.empty xs"

definition rankPlansByRank :: "RankPlan list \<Rightarrow> (string \<rightharpoonup> RankPlan list)" where
  "rankPlansByRank rps = groupBy rp_rankId rps"

definition assignmentsByRankPlan :: "Assignment list \<Rightarrow> (string \<rightharpoonup> Assignment list)" where
  "assignmentsByRankPlan as = groupBy rankPlanId as"

text \<open>What the grouping invariant says of a list, a key function and the groups: each
  element lies in exactly one group, the group of its key, as often as in the list; the
  groups together hold the elements of the list; each group is the sublist of the elements
  with its key, in the order of the list; no group is empty.\<close>

definition groupingInvariant :: "('a \<Rightarrow> string) \<Rightarrow> 'a list \<Rightarrow> (string \<rightharpoonup> 'a list) \<Rightarrow> bool" where
  "groupingInvariant key xs groups \<longleftrightarrow>
     (\<forall>x \<in> set xs. \<exists>!k. \<exists>g. groups k = Some g \<and> x \<in> set g)
   \<and> (\<forall>x \<in> set xs. \<exists>g. groups (key x) = Some g \<and> x \<in> set g \<and> count_list g x = count_list xs x)
   \<and> \<Union> (set ` ran groups) = set xs
   \<and> (\<forall>k g. groups k = Some g \<longrightarrow> g = filter (\<lambda>x. key x = k) xs)
   \<and> (\<forall>k g. groups k = Some g \<longrightarrow> g \<noteq> [])
   \<and> dom groups = key ` set xs"

section \<open>JavaScript values\<close>

text \<open>
  The codec and the start-up code work on untyped values: whatever \<open>JSON.parse\<close> returns
  is cast to the collection type without a check. \<open>jsval\<close> is the plain value tree these
  functions see: primitives, native dates, arrays, and plain objects given by their own
  enumerable properties in property order (keys are distinct in a JavaScript object). The
  prototype of a plain object is \<open>Object.prototype\<close>; other prototypes, functions, symbols
  and cyclic structures are outside the model.
\<close>

datatype jsval =
    VUndefined
  | VNull
  | VBool bool
  | VNum jsnum
  | VStr string
  | VDate jsdate
  | VArr "jsval list"
  | VObj "(string \<times> jsval) list"

text \<open>
  What the code asks of the ECMAScript runtime and this development does not spell out is a
  parameter, so that every statement holds whatever these functions do:
  \<^item> \<open>JSON_parse\<close>: the value tree \<open>JSON.parse\<close> builds from a text, \<open>None\<close> when it
    throws a \<open>SyntaxError\<close>;
  \<^item> \<open>JSON_text\<close>: the text \<open>JSON.stringify\<close> writes for a tree of JSON values;
  \<^item> \<open>toISOString\<close>: the ISO-8601 text of a valid time value;
  \<^item> \<open>Date_parse\<close>: the date \<open>new Date(s)\<close> builds from a string;
  \<^item> \<open>ToString\<close>: \<open>String(v)\<close> for numbers, dates, arrays and objects (it can throw a
    \<open>TypeError\<close>);
  \<^item> \<open>StringToNumber\<close>: the number a string converts to.
\<close>

record runtime =
  JSON_parse :: "string \<Rightarrow> jsval option"
  JSON_text :: "jsval \<Rightarrow> string"
  toISOString :: "int \<Rightarrow> string"
  Date_parse :: "string \<Rightarrow> jsdate"
  ToString :: "jsval \<Rightarrow> error + string"
  StringToNumber :: "string \<Rightarrow> jsnum"

subsection \<open>\<open>serializeForStorage\<close>\<close>

text \<open>
  \<open>JSON.stringify(data, replacer)\<close> serialises each property value in three steps
  (ECMA-262, SerializeJSONProperty): first, when the value is an object with a callable
  \<open>toJSON\<close> method, the value is replaced by the result of that method; then the replacer
  function is called with the value so obtained; then the result is written according to its
  type. In a plain value tree only dates have a \<open>toJSON\<close> method:
  \<open>Date.prototype.toJSON\<close> returns \<open>null\<close> for an invalid date and \<open>toISOString()\<close>
  otherwise.
\<close>

definition Date_toJSON :: "runtime \<Rightarrow> jsdate \<Rightarrow> jsval" where
  "Date_toJSON rt d = (case d of ValidDate t \<Rightarrow> VStr (toISOString rt t) | InvalidDate \<Rightarrow> VNull)"

definition toJSON_step :: "runtime \<Rightarrow> jsval \<Rightarrow> jsval" where
  "toJSON_step rt v = (case v of VDate d \<Rightarrow> Date_toJSON rt d | _ \<Rightarrow> v)"

text \<open>The replacer of \<open>serializeForStorage\<close>: a value that is an instance of \<open>Date\<close>
  becomes the tagged wrapper (\<open>toISOString\<close> throws a \<open>RangeError\<close> on an invalid date);
  any other value is returned as it is.\<close>

definition dateMarker :: "string \<Rightarrow> jsval" where
  "dateMarker isoText = VObj [(''__type'', VStr ''Date''), (''value'', VStr isoText)]"

definition replacer :: "runtime \<Rightarrow> jsval \<Rightarrow> error + jsval" where
  "replacer rt v =
     (case v of
        VDate d \<Rightarrow>
          (case d of
             ValidDate t \<Rightarrow> Inr (dateMarker (toISOString rt t))
           | InvalidDate \<Rightarrow> Inl RangeError)
      | _ \<Rightarrow> Inr v)"

text \<open>
  The third step: \<open>undefined\<close> yields no text (\<open>None\<close>); a non-finite number is written
  as \<open>null\<close>; an array writes \<open>null\<close> for an element without text; an object leaves out
  a property without text. The result is the tree of JSON values whose text is produced.
\<close>

function serializeProperty :: "runtime \<Rightarrow> jsval \<Rightarrow> error + jsval option"
  and serializeArray :: "runtime \<Rightarrow> jsval list \<Rightarrow> error + jsval list"
  and serializeObject :: "runtime \<Rightarrow> (string \<times> jsval) list \<Rightarrow> error + (string \<times> jsval) list"
where
  "serializeProperty rt v =
     (case replacer rt (toJSON_step rt v) of
        Inl e \<Rightarrow> Inl e
      | Inr VUndefined \<Rightarrow> Inr None
      | Inr VNull \<Rightarrow> Inr (Some VNull)
      | Inr (VBool b) \<Rightarrow> Inr (Some (VBool b))
      | Inr (VNum n) \<Rightarrow> Inr (Some (case n of Num r \<Rightarrow> VNum (Num r) | _ \<Rightarrow> VNull))
      | Inr (VStr s) \<Rightarrow> Inr (Some (VStr s))
      | Inr (VDate d) \<Rightarrow> Inr (Some (VObj []))
      | Inr (VArr xs) \<Rightarrow>
          (case serializeArray rt xs of Inl e \<Rightarrow> Inl e | Inr ys \<Rightarrow> Inr (Some (VArr ys)))
      | Inr (VObj ps) \<Rightarrow>
          (case serializeObject rt ps of Inl e \<Rightarrow> Inl e | Inr qs \<Rightarrow> Inr (Some (VObj qs))))"
| "serializeArray rt [] = Inr []"
| "serializeArray rt (x # xs) =
     (case serializeProperty rt x of
        Inl e \<Rightarrow> Inl e
      | Inr y \<Rightarrow>
          (case serializeArray rt xs of
             Inl e \<Rightarrow> Inl e
           | Inr ys \<Rightarrow> Inr ((case y of None \<Rightarrow> VNull | Some w \<Rightarrow> w) # ys)))"
| "serializeObject rt [] = Inr []"
| "serializeObject rt ((k, x) # ps) =
     (case serializeProperty rt x of
        Inl e \<Rightarrow> Inl e
      | Inr y \<Rightarrow>
          (case serializeObject rt ps of
             Inl e \<Rightarrow> Inl e
           | Inr qs \<Rightarrow> Inr ((case y of None \<Rightarrow> [] | Some w \<Rightarrow> [(k, w)]) @ qs)))"
  by pat_completeness auto
termination
  by (relation "measure (\<lambda>a. case a of
          Inl (rt, v) \<Rightarrow> 2 * size v
        | Inr (Inl (rt, xs)) \<Rightarrow> 2 * size_list size xs + 1
        | Inr (Inr (rt, ps)) \<Rightarrow> 2 * size_list (size_prod (\<lambda>_. 0) size) ps + 1)")
    (auto simp: replacer_def toJSON_step_def Date_toJSON_def split: jsval.splits jsdate.splits)

definition serializeForStorage :: "runtime \<Rightarrow> jsval \<Rightarrow> error + string option" where
  "serializeForStorage rt data =
     (case serializeProperty rt data of
        Inl e \<Rightarrow> Inl e
      | Inr None \<Rightarrow> Inr None
      | Inr (Some tree) \<Rightarrow> Inr (Some (JSON_text rt tree)))"

section \<open>Decoding\<close>

text \<open>The test of \<open>convertDates\<close> for a date marker: an object with a property
  \<open>__type\<close> equal to \<open>"Date"\<close> and a property \<open>value\<close>. Neither name is a member of
  \<open>Object.prototype\<close>, of an array or of a date, so only own properties count.\<close>

fun isDateMarker :: "jsval \<Rightarrow> bool" where
  "isDateMarker (VObj ps) =
     (map_of ps ''__type'' = Some (VStr ''Date'') \<and> ''value'' \<in> fst ` set ps)"
| "isDateMarker _ = False"

text \<open>\<open>String(v)\<close>; the conversions that depend on number formatting, the locale or the
  object's own \<open>toString\<close> are left to the runtime.\<close>

definition String_of :: "runtime \<Rightarrow> jsval \<Rightarrow> error + string" where
  "String_of rt v =
     (case v of
        VStr s \<Rightarrow> Inr s
      | VUndefined \<Rightarrow> Inr ''undefined''
      | VNull \<Rightarrow> Inr ''null''
      | VBool b \<Rightarrow> Inr (if b then ''true'' else ''false'')
      | _ \<Rightarrow> ToString rt v)"

definition getOwn :: "(string \<times> jsval) list \<Rightarrow> string \<Rightarrow> jsval" where
  "getOwn ps k = (case map_of ps k of None \<Rightarrow> VUndefined | Some v \<Rightarrow> v)"

text \<open>
  The assignment \<open>converted[key] = value\<close> on the object under construction. The key
  \<open>__proto__\<close> reaches the setter inherited from \<open>Object.prototype\<close>, which may change
  the prototype of \<open>converted\<close> and creates no own property: the model leaves the own
  properties unchanged and does not follow the prototype.
\<close>

definition assignProp :: "(string \<times> jsval) list \<Rightarrow> string \<Rightarrow> jsval \<Rightarrow> (string \<times> jsval) list" where
  "assignProp ps k v =
     (if k = ''__proto__'' then ps
      else if k \<in> fst ` set ps then map (\<lambda>(k', v'). if k' = k then (k', v) else (k', v')) ps
      else ps @ [(k, v)])"

text \<open>
  \<open>convertDates\<close>, in the order of its tests: \<open>null\<close> and \<open>undefined\<close>; a date marker;
  an array; any other object, rebuilt from \<open>Object.entries\<close> (a native date has no own
  enumerable property, so it is rebuilt as an empty object); anything else.
\<close>

fun convertDates :: "runtime \<Rightarrow> jsval \<Rightarrow> error + jsval"
  and convertElements :: "runtime \<Rightarrow> jsval list \<Rightarrow> error + jsval list"
  and convertEntries :: "runtime \<Rightarrow> (string \<times> jsval) list \<Rightarrow> (string \<times> jsval) list
        \<Rightarrow> error + (string \<times> jsval) list"
where
  "convertDates rt VNull = Inr VNull"
| "convertDates rt VUndefined = Inr VUndefined"
| "convertDates rt (VObj ps) =
     (if isDateMarker (VObj ps) then
        (case String_of rt (getOwn ps ''value'') of
           Inl e \<Rightarrow> Inl e
         | Inr s \<Rightarrow> Inr (VDate (Date_parse rt s)))
      else
        (case convertEntries rt [] ps of
           Inl e \<Rightarrow> Inl e
         | Inr converted \<Rightarrow> Inr (VObj converted)))"
| "convertDates rt (VArr xs) =
     (case convertElements rt xs of Inl e \<Rightarrow> Inl e | Inr ys \<Rightarrow> Inr (VArr ys))"
| "convertDates rt (VDate d) = Inr (VObj [])"
| "convertDates rt (VBool b) = Inr (VBool b)"
| "convertDates rt (VNum n) = Inr (VNum n)"
| "convertDates rt (VStr s) = Inr (VStr s)"
| "convertElements rt [] = Inr []"
| "convertElements rt (x # xs) =
     (case convertDates rt x of
        Inl e \<Rightarrow> Inl e
      | Inr y \<Rightarrow> (case convertElements rt xs of Inl e \<Rightarrow> Inl e | Inr ys \<Rightarrow> Inr (y # ys)))"
| "convertEntries rt converted [] = Inr converted"
| "convertEntries rt converted ((k, v) # ps) =
     (case convertDates rt v of
        Inl e \<Rightarrow> Inl e
      | Inr w \<Rightarrow> convertEntries rt (assignProp converted k w) ps)"

definition deserializeFromStorage :: "runtime \<Rightarrow> string \<Rightarrow> error + jsval" where
  "deserializeFromStorage rt json =
     (case JSON_parse rt json of
        None \<Rightarrow> Inl SyntaxError
      | Some parsed \<Rightarrow> convertDates rt parsed)"

text \<open>
  \<open>loadFromStorage\<close>: \<open>getItem\<close> is \<open>localStorage.getItem\<close> in the current state of
  the storage (it may throw). Every exception of the \<open>try\<close> block is caught and logged,
  and the default is returned.
\<close>

definition loadFromStorage ::
  "runtime \<Rightarrow> (string \<Rightarrow> error + string option) \<Rightarrow> string \<Rightarrow> jsval \<Rightarrow> error + jsval" where
  "loadFromStorage rt getItem key defaultValue =
     (case (case getItem key of
              Inl e \<Rightarrow> Inl e
            | Inr None \<Rightarrow> Inr None
            | Inr (Some stored) \<Rightarrow>
                (if stored \<noteq> [] then
                   (case deserializeFromStorage rt stored of
                      Inl e \<Rightarrow> Inl e
                    | Inr v \<Rightarrow> Inr (Some v))
                 else Inr None)) of
        Inl e \<Rightarrow> Inr defaultValue
      | Inr (Some v) \<Rightarrow> Inr v
      | Inr None \<Rightarrow> Inr defaultValue)"

section \<open>Persistence\<close>

text \<open>
  \<open>saveToStorage\<close> on a storage without quota: an exception of the serialisation is
  caught and the storage stays as it is; \<open>setItem\<close> stores the text \<open>undefined\<close> when
  \<open>JSON.stringify\<close> returns \<open>undefined\<close>.
\<close>

definition saveToStorage :: "runtime \<Rightarrow> string \<Rightarrow> jsval \<Rightarrow> (string \<rightharpoonup> string) \<Rightarrow> (string \<rightharpoonup> string)" where
  "saveToStorage rt key v storage =
     (case serializeForStorage rt v of
        Inl e \<Rightarrow> storage
      | Inr None \<Rightarrow> storage(key \<mapsto> ''undefined'')
      | Inr (Some text) \<Rightarrow> storage(key \<mapsto> text))"

text \<open>The typed entities as JavaScript values, with the keys in the order in which the
  save handlers build them; an optional field without value has no key.\<close>

definition optProp :: "string \<Rightarrow> ('a \<Rightarrow> jsval) \<Rightarrow> 'a option \<Rightarrow> (string \<times> jsval) list" where
  "optProp k f x = (case x of None \<Rightarrow> [] | Some y \<Rightarrow> [(k, f y)])"

definition rankVal :: "Rank \<Rightarrow> jsval" where
  "rankVal r = VObj [(''id'', VStr (rank_id r)), (''name'', VStr (rank_name r))]"

definition rankPlanVal :: "RankPlan \<Rightarrow> jsval" where
  "rankPlanVal rp =
     VObj [(''id'', VStr (rp_id rp)), (''name'', VStr (rp_name rp)), (''rankId'', VStr (rp_rankId rp))]"

definition typeVal :: "AssignmentType \<Rightarrow> jsval" where
  "typeVal t = (case t of TMain \<Rightarrow> VStr ''main'' | TReliever \<Rightarrow> VStr ''reliever'')"

definition assignmentVal :: "Assignment \<Rightarrow> jsval" where
  "assignmentVal a =
     VObj ([(''id'', VStr (a_id a))] @ optProp ''name'' VStr (a_name a)
           @ [(''type'', typeVal (a_type a)),
              (''planStartDate'', VDate (planStartDate a)),
              (''planEndDate'', VDate (planEndDate a))]
           @ optProp ''actualStartDate'' VDate (actualStartDate a)
           @ optProp ''actualEndDate'' VDate (actualEndDate a)
           @ [(''rankPlanId'', VStr (rankPlanId a))])"

definition markerVal :: "Marker \<Rightarrow> jsval" where
  "markerVal m =
     VObj ([(''id'', VStr (m_id m)), (''date'', VDate (m_date m)), (''label'', VStr (m_label m))]
           @ optProp ''className'' VStr (m_className m))"

text \<open>
  The component and its storage. The four \<open>useEffect\<close> hooks persist a collection after
  every render in which the collection is a new array; \<open>runEffects\<close> runs, in the order of
  their declaration, the hooks of the collections whose setter was called.
\<close>

record World =
  mem :: GanttState
  localStorage :: "string \<rightharpoonup> string"

datatype Collection = Ranks | RankPlans | Assignments | Markers

definition persistEffect :: "runtime \<Rightarrow> Collection \<Rightarrow> GanttState \<Rightarrow> (string \<rightharpoonup> string) \<Rightarrow> (string \<rightharpoonup> string)" where
  "persistEffect rt c st storage =
     (case c of
        Ranks \<Rightarrow> saveToStorage rt ''gantt-ranks'' (VArr (map rankVal (ranks st))) storage
      | RankPlans \<Rightarrow> saveToStorage rt ''gantt-rankPlans'' (VArr (map rankPlanVal (rankPlans st))) storage
      | Assignments \<Rightarrow>
          saveToStorage rt ''gantt-assignments'' (VArr (map assignmentVal (assignments st))) storage
      | Markers \<Rightarrow> saveToStorage rt ''gantt-markers'' (VArr (map markerVal (markers st))) storage)"

definition runEffects :: "runtime \<Rightarrow> Collection list \<Rightarrow> World \<Rightarrow> World" where
  "runEffects rt changed w =
     w\<lparr>localStorage :=
         foldl (\<lambda>storage c. if c \<in> set changed then persistEffect rt c (mem w) storage else storage)
           (localStorage w) [Ranks, RankPlans, Assignments, Markers]\<rparr>"

definition removeItem :: "string \<Rightarrow> (string \<rightharpoonup> string) \<Rightarrow> (string \<rightharpoonup> string)" where
  "removeItem key storage = storage(key := None)"

text \<open>\<open>handleClearStorage\<close>; \<open>confirmed\<close> is the answer of \<open>window.confirm\<close>. The
  result names the collections whose setter was called. \<open>clearCommand\<close> is the handler
  followed by the effects of the render it causes.\<close>

definition handleClearStorage :: "bool \<Rightarrow> World \<Rightarrow> World \<times> Collection list" where
  "handleClearStorage confirmed w =
     (if confirmed then
        (w\<lparr>localStorage :=
             removeItem ''gantt-markers'' (removeItem ''gantt-assignments''
               (removeItem ''gantt-rankPlans'' (removeItem ''gantt-ranks'' (localStorage w)))),
           mem := (mem w)\<lparr>ranks := [], rankPlans := [], assignments := [], markers := []\<rparr>\<rparr>,
         [Ranks, RankPlans, Assignments, Markers])
      else (w, []))"

definition clearCommand :: "runtime \<Rightarrow> bool \<Rightarrow> World \<Rightarrow> World" where
  "clearCommand rt confirmed w =
     (case handleClearStorage confirmed w of (w', changed) \<Rightarrow> runEffects rt changed w')"

section \<open>Start-up\<close>

text \<open>Sequencing of steps that may throw.\<close>

definition bindE :: "error + 'a \<Rightarrow> ('a \<Rightarrow> error + 'b) \<Rightarrow> error + 'b" where
  "bindE m f = (case m of Inl e \<Rightarrow> Inl e | Inr x \<Rightarrow> f x)"

fun mapE :: "('a \<Rightarrow> error + 'b) \<Rightarrow> 'a list \<Rightarrow> error + 'b list" where
  "mapE f [] = Inr []"
| "mapE f (x # xs) = bindE (f x) (\<lambda>y. bindE (mapE f xs) (\<lambda>ys. Inr (y # ys)))"

text \<open>\<open>stored.length\<close>: a \<open>TypeError\<close> on \<open>null\<close> and \<open>undefined\<close>, the length of an
  array or a string, the own property \<open>length\<close> of an object, \<open>undefined\<close> otherwise.\<close>

definition lengthOf :: "jsval \<Rightarrow> error + jsval" where
  "lengthOf v =
     (case v of
        VUndefined \<Rightarrow> Inl TypeError
      | VNull \<Rightarrow> Inl TypeError
      | VArr xs \<Rightarrow> Inr (VNum (Num (of_nat (length xs))))
      | VStr s \<Rightarrow> Inr (VNum (Num (of_nat (length s))))
      | VObj ps \<Rightarrow> Inr (getOwn ps ''length'')
      | _ \<Rightarrow> Inr VUndefined)"

text \<open>\<open>x > 0\<close>: the operand is converted to a number; \<open>undefined\<close> converts to NaN,
  \<open>null\<close> to 0, a date to its time value, an array or an object through its string.\<close>

definition positive :: "jsnum \<Rightarrow> bool" where
  "positive n = (case n of Num r \<Rightarrow> 0 < r | PosInf \<Rightarrow> True | _ \<Rightarrow> False)"

definition greaterThanZero :: "runtime \<Rightarrow> jsval \<Rightarrow> error + bool" where
  "greaterThanZero rt v =
     (case v of
        VUndefined \<Rightarrow> Inr False
      | VNull \<Rightarrow> Inr False
      | VBool b \<Rightarrow> Inr b
      | VNum n \<Rightarrow> Inr (positive n)
      | VStr s \<Rightarrow> Inr (positive (StringToNumber rt s))
      | VDate d \<Rightarrow> Inr (case d of ValidDate t \<Rightarrow> 0 < t | InvalidDate \<Rightarrow> False)
      | _ \<Rightarrow> bindE (ToString rt v) (\<lambda>s. Inr (positive (StringToNumber rt s))))"

text \<open>\<open>v.k\<close> for the field names of the entities, none of which is a built-in property
  of a string, an array, a date or \<open>Object.prototype\<close>.\<close>

definition readField :: "jsval \<Rightarrow> string \<Rightarrow> error + jsval" where
  "readField v k =
     (case v of
        VUndefined \<Rightarrow> Inl TypeError
      | VNull \<Rightarrow> Inl TypeError
      | VObj ps \<Rightarrow> Inr (getOwn ps k)
      | _ \<Rightarrow> Inr VUndefined)"

definition isTruthy :: "jsval \<Rightarrow> bool" where
  "isTruthy v =
     (case v of
        VUndefined \<Rightarrow> False
      | VNull \<Rightarrow> False
      | VBool b \<Rightarrow> b
      | VNum n \<Rightarrow> (case n of Num r \<Rightarrow> r \<noteq> 0 | NaN \<Rightarrow> False | _ \<Rightarrow> True)
      | VStr s \<Rightarrow> s \<noteq> []
      | _ \<Rightarrow> True)"

definition instanceofDate :: "jsval \<Rightarrow> bool" where
  "instanceofDate v = (case v of VDate d \<Rightarrow> True | _ \<Rightarrow> False)"

text \<open>\<open>new Date(n)\<close> for a number and \<open>new Date(v)\<close> for any value that is not a
  date.\<close>

definition timeClip :: "jsnum \<Rightarrow> jsdate" where
  "timeClip n =
     (case n of
        Num r \<Rightarrow>
          (if \<bar>r\<bar> \<le> 8640000000000000 then ValidDate (if 0 \<le> r then \<lfloor>r\<rfloor> else \<lceil>r\<rceil>)
           else InvalidDate)
      | _ \<Rightarrow> InvalidDate)"

definition newDate :: "runtime \<Rightarrow> jsval \<Rightarrow> error + jsdate" where
  "newDate rt v =
     (case v of
        VDate d \<Rightarrow> Inr d
      | VStr s \<Rightarrow> Inr (Date_parse rt s)
      | VUndefined \<Rightarrow> Inr InvalidDate
      | VNull \<Rightarrow> Inr (ValidDate 0)
      | VBool b \<Rightarrow> Inr (ValidDate (if b then 1 else 0))
      | VNum n \<Rightarrow> Inr (timeClip n)
      | _ \<Rightarrow> bindE (ToString rt v) (\<lambda>s. Inr (Date_parse rt s)))"

text \<open>\<open>d instanceof Date ? d : new Date(d)\<close>, and the same guarded by the truthiness of
  \<open>d\<close> for the optional dates.\<close>

definition normalizeDate :: "runtime \<Rightarrow> jsval \<Rightarrow> error + jsval" where
  "normalizeDate rt v =
     (if instanceofDate v then Inr v else bindE (newDate rt v) (\<lambda>d. Inr (VDate d)))"

definition normalizeOptionalDate :: "runtime \<Rightarrow> jsval \<Rightarrow> error + jsval" where
  "normalizeOptionalDate rt v = (if isTruthy v then normalizeDate rt v else Inr VUndefined)"

text \<open>The own enumerable properties an object spread copies (the index keys of an array
  or a string are decimal numerals), and the definition of a property by an object
  literal: an existing key keeps its place.\<close>

fun decimal :: "nat \<Rightarrow> string" where
  "decimal n =
     (if n < 10 then [''0123456789'' ! n] else decimal (n div 10) @ [''0123456789'' ! (n mod 10)])"

definition spreadProps :: "jsval \<Rightarrow> (string \<times> jsval) list" where
  "spreadProps v =
     (case v of
        VObj ps \<Rightarrow> ps
      | VArr xs \<Rightarrow> zip (map decimal [0..<length xs]) xs
      | VStr s \<Rightarrow> zip (map decimal [0..<length s]) (map (\<lambda>c. VStr [c]) s)
      | _ \<Rightarrow> [])"

definition defineProp :: "(string \<times> jsval) list \<Rightarrow> string \<Rightarrow> jsval \<Rightarrow> (string \<times> jsval) list" where
  "defineProp ps k v =
     (if k \<in> fst ` set ps then map (\<lambda>(k', v'). if k' = k then (k', v) else (k', v')) ps
      else ps @ [(k, v)])"

text \<open>The element functions of the two \<open>stored.map(...)\<close> calls of the initialisers.\<close>

definition normalizeAssignment :: "runtime \<Rightarrow> jsval \<Rightarrow> error + jsval" where
  "normalizeAssignment rt assignment =
     bindE (bindE (readField assignment ''planStartDate'') (normalizeDate rt)) (\<lambda>ps.
     bindE (bindE (readField assignment ''planEndDate'') (normalizeDate rt)) (\<lambda>pe.
     bindE (bindE (readField assignment ''actualStartDate'') (normalizeOptionalDate rt)) (\<lambda>as.
     bindE (bindE (readField assignment ''actualEndDate'') (normalizeOptionalDate rt)) (\<lambda>ae.
       Inr (VObj (defineProp (defineProp (defineProp (defineProp (spreadProps assignment)
              ''planStartDate'' ps) ''planEndDate'' pe) ''actualStartDate'' as)
              ''actualEndDate'' ae))))))"

definition normalizeMarker :: "runtime \<Rightarrow> jsval \<Rightarrow> error + jsval" where
  "normalizeMarker rt marker =
     bindE (bindE (readField marker ''date'') (normalizeDate rt)) (\<lambda>d.
       Inr (VObj (defineProp (spreadProps marker) ''date'' d)))"

definition arrayMap :: "(jsval \<Rightarrow> error + jsval) \<Rightarrow> jsval \<Rightarrow> error + jsval" where
  "arrayMap f v = (case v of VArr xs \<Rightarrow> bindE (mapE f xs) (\<lambda>ys. Inr (VArr ys)) | _ \<Rightarrow> Inl TypeError)"

definition hasElements :: "runtime \<Rightarrow> jsval \<Rightarrow> error + bool" where
  "hasElements rt stored = bindE (lengthOf stored) (greaterThanZero rt)"

text \<open>
  The props of the component; a prop that is \<open>undefined\<close> takes the default \<open>[]\<close>. The
  four initialisers of the collections follow.
\<close>

definition defaultParam :: "jsval \<Rightarrow> jsval" where
  "defaultParam v = (if v = VUndefined then VArr [] else v)"

record GanttProps =
  props_ranks :: jsval
  props_rankPlans :: jsval
  props_assignments :: jsval
  props_markers :: jsval

definition initRanks :: "runtime \<Rightarrow> (string \<Rightarrow> error + string option) \<Rightarrow> GanttProps \<Rightarrow> error + jsval" where
  "initRanks rt getItem props =
     (let initialRanks = defaultParam (props_ranks props) in
      bindE (loadFromStorage rt getItem ''gantt-ranks'' initialRanks) (\<lambda>stored.
      bindE (hasElements rt stored) (\<lambda>nonEmpty.
        Inr (if nonEmpty then stored else initialRanks))))"

definition initRankPlans :: "runtime \<Rightarrow> (string \<Rightarrow> error + string option) \<Rightarrow> GanttProps \<Rightarrow> error + jsval" where
  "initRankPlans rt getItem props =
     (let initialRankPlans = defaultParam (props_rankPlans props) in
      bindE (loadFromStorage rt getItem ''gantt-rankPlans'' initialRankPlans) (\<lambda>stored.
      bindE (hasElements rt stored) (\<lambda>nonEmpty.
        Inr (if nonEmpty then stored else initialRankPlans))))"

definition initAssignments :: "runtime \<Rightarrow> (string \<Rightarrow> error + string option) \<Rightarrow> GanttProps \<Rightarrow> error + jsval" where
  "initAssignments rt getItem props =
     (let initialAssignments = defaultParam (props_assignments props) in
      bindE (loadFromStorage rt getItem ''gantt-assignments'' initialAssignments) (\<lambda>stored.
      bindE (hasElements rt stored) (\<lambda>nonEmpty.
        if nonEmpty then arrayMap (normalizeAssignment rt) stored else Inr initialAssignments)))"

definition initMarkers :: "runtime \<Rightarrow> (string \<Rightarrow> error + string option) \<Rightarrow> GanttProps \<Rightarrow> error + jsval" where
  "initMarkers rt getItem props =
     (let initialMarkers = defaultParam (props_markers props) in
      bindE (loadFromStorage rt getItem ''gantt-markers'' initialMarkers) (\<lambda>stored.
      bindE (hasElements rt stored) (\<lambda>nonEmpty.
        if nonEmpty then arrayMap (normalizeMarker rt) stored else Inr initialMarkers)))"

section \<open>Projection\<close>

record GanttStatus =
  status_id :: string
  status_name :: string
  status_color :: string

record GanttFeature =
  feature_id :: string
  feature_name :: string
  startAt :: jsdate
  endAt :: jsdate
  status :: GanttStatus

text \<open>\<open>getTime\<close>, and \<open>Math.min\<close> and \<open>Math.max\<close> of a spread list: NaN as soon as
  one argument is NaN, the infinities for no argument.\<close>

definition getTime :: "jsdate \<Rightarrow> jsnum" where
  "getTime d = (case d of ValidDate t \<Rightarrow> Num (of_int t) | InvalidDate \<Rightarrow> NaN)"

fun lessNum :: "jsnum \<Rightarrow> jsnum \<Rightarrow> bool" where
  "lessNum (Num a) (Num b) = (a < b)"
| "lessNum NegInf (Num b) = True"
| "lessNum NegInf PosInf = True"
| "lessNum (Num a) PosInf = True"
| "lessNum _ _ = False"

definition Math_min :: "jsnum list \<Rightarrow> jsnum" where
  "Math_min xs = (if NaN \<in> set xs then NaN else foldl (\<lambda>m x. if lessNum x m then x else m) PosInf xs)"

definition Math_max :: "jsnum list \<Rightarrow> jsnum" where
  "Math_max xs = (if NaN \<in> set xs then NaN else foldl (\<lambda>m x. if lessNum m x then x else m) NegInf xs)"

text \<open>
  \<open>groups[k] || []\<close> on the plain object \<open>groupBy\<close> returned: an own property is a
  group; a key that is no own property but a member of \<open>Object.prototype\<close> yields that
  member, which is truthy (\<open>Inherited\<close>, with the \<open>length\<close> of the member: the arity of
  a function, none for the object that \<open>__proto__\<close> yields); any other key yields
  \<open>undefined\<close>, hence \<open>[]\<close>.
\<close>

datatype 'a lookup = Own "'a list" | Inherited "nat option"

definition objectPrototypeMember :: "string \<Rightarrow> nat option option" where
  "objectPrototypeMember k =
     map_of
       [(''constructor'', Some 1),
        (''__defineGetter__'', Some 2),
        (''__defineSetter__'', Some 2),
        (''hasOwnProperty'', Some 1),
        (''__lookupGetter__'', Some 1),
        (''__lookupSetter__'', Some 1),
        (''isPrototypeOf'', Some 1),
        (''propertyIsEnumerable'', Some 1),
        (''toString'', Some 0),
        (''valueOf'', Some 0),
        (''toLocaleString'', Some 0),
        (''__proto__'', None)] k"

definition lookupOrEmpty :: "(string \<rightharpoonup> 'a list) \<Rightarrow> string \<Rightarrow> 'a lookup" where
  "lookupOrEmpty groups k =
     (case groups k of
        Some g \<Rightarrow> Own g
      | None \<Rightarrow> (case objectPrototypeMember k of Some m \<Rightarrow> Inherited m | None \<Rightarrow> Own []))"

text \<open>
  One bound of the span of \<open>representativeFeature\<close>:
  \<open>planAssignments.length > 0 ? new Date(pick(...planAssignments.map(a => field(a).getTime()))) : today\<close>.
  A member of \<open>Object.prototype\<close> with positive \<open>length\<close> has no \<open>map\<close> method: the call
  throws a \<open>TypeError\<close>.
\<close>

definition spanBound ::
  "(jsnum list \<Rightarrow> jsnum) \<Rightarrow> (Assignment \<Rightarrow> jsdate) \<Rightarrow> jsdate \<Rightarrow> Assignment lookup \<Rightarrow> error + jsdate" where
  "spanBound pick field today planAssignments =
     (case planAssignments of
        Own as \<Rightarrow> Inr (if length as > 0 then timeClip (pick (map (\<lambda>a. getTime (field a)) as)) else today)
      | Inherited len \<Rightarrow>
          (case len of
             Some n \<Rightarrow> if n > 0 then Inl TypeError else Inr today
           | None \<Rightarrow> Inr today))"

definition representativeFeature ::
  "jsdate \<Rightarrow> RankPlan \<Rightarrow> (string \<rightharpoonup> Assignment list) \<Rightarrow> error + GanttFeature" where
  "representativeFeature today rankPlan groups =
     (let planAssignments = lookupOrEmpty groups (rp_id rankPlan) in
      bindE (spanBound Math_min planStartDate today planAssignments) (\<lambda>s.
      bindE (spanBound Math_max planEndDate today planAssignments) (\<lambda>e.
        Inr \<lparr>feature_id = rp_id rankPlan, feature_name = rp_name rankPlan,
             startAt = s, endAt = e,
             status = \<lparr>status_id = ''default'', status_name = ''Default'',
                        status_color = ''#6B7280''\<rparr>\<rparr>)))"

section \<open>Notions used in the statements\<close>

text \<open>
  The objects of a value have distinct keys, as every JavaScript object has, and none has
  the key \<open>__proto__\<close>, the one key for which \<open>convertDates\<close> touches a prototype.
\<close>

fun plainKeys :: "jsval \<Rightarrow> bool"
  and plainKeysElements :: "jsval list \<Rightarrow> bool"
  and plainKeysEntries :: "(string \<times> jsval) list \<Rightarrow> bool"
where
  "plainKeys (VObj ps) =
     (distinct (map fst ps) \<and> ''__proto__'' \<notin> fst ` set ps \<and> plainKeysEntries ps)"
| "plainKeys (VArr xs) = plainKeysElements xs"
| "plainKeys VUndefined = True"
| "plainKeys VNull = True"
| "plainKeys (VBool b) = True"
| "plainKeys (VNum n) = True"
| "plainKeys (VStr s) = True"
| "plainKeys (VDate d) = True"
| "plainKeysElements [] = True"
| "plainKeysElements (x # xs) = (plainKeys x \<and> plainKeysElements xs)"
| "plainKeysEntries [] = True"
| "plainKeysEntries ((k, v) # ps) = (plainKeys v \<and> plainKeysEntries ps)"

text \<open>
  An already-decoded value: a plain value tree without date marker, as \<open>convertDates\<close>
  returns it (lemma \<open>convertDates_output\<close>). Its dates are native dates; its objects have
  distinct keys, none of them \<open>__proto__\<close>.
\<close>

fun alreadyDecoded :: "jsval \<Rightarrow> bool"
  and alreadyDecodedElements :: "jsval list \<Rightarrow> bool"
  and alreadyDecodedEntries :: "(string \<times> jsval) list \<Rightarrow> bool"
where
  "alreadyDecoded (VObj ps) =
     (\<not> isDateMarker (VObj ps) \<and> distinct (map fst ps) \<and> ''__proto__'' \<notin> fst ` set ps
      \<and> alreadyDecodedEntries ps)"
| "alreadyDecoded (VArr xs) = alreadyDecodedElements xs"
| "alreadyDecoded VUndefined = True"
| "alreadyDecoded VNull = True"
| "alreadyDecoded (VBool b) = True"
| "alreadyDecoded (VNum n) = True"
| "alreadyDecoded (VStr s) = True"
| "alreadyDecoded (VDate d) = True"
| "alreadyDecodedElements [] = True"
| "alreadyDecodedElements (x # xs) = (alreadyDecoded x \<and> alreadyDecodedElements xs)"
| "alreadyDecodedEntries [] = True"
| "alreadyDecodedEntries ((k, v) # ps) = (alreadyDecoded v \<and> alreadyDecodedEntries ps)"

text \<open>The value with every native date replaced by an empty object and nothing else
  changed.\<close>

fun datesToEmptyObjects :: "jsval \<Rightarrow> jsval"
  and datesToEmptyObjectsElements :: "jsval list \<Rightarrow> jsval list"
  and datesToEmptyObjectsEntries :: "(string \<times> jsval) list \<Rightarrow> (string \<times> jsval) list"
where
  "datesToEmptyObjects (VDate d) = VObj []"
| "datesToEmptyObjects (VObj ps) = VObj (datesToEmptyObjectsEntries ps)"
| "datesToEmptyObjects (VArr xs) = VArr (datesToEmptyObjectsElements xs)"
| "datesToEmptyObjects VUndefined = VUndefined"
| "datesToEmptyObjects VNull = VNull"
| "datesToEmptyObjects (VBool b) = VBool b"
| "datesToEmptyObjects (VNum n) = VNum n"
| "datesToEmptyObjects (VStr s) = VStr s"
| "datesToEmptyObjectsElements [] = []"
| "datesToEmptyObjectsElements (x # xs) = datesToEmptyObjects x # datesToEmptyObjectsElements xs"
| "datesToEmptyObjectsEntries [] = []"
| "datesToEmptyObjectsEntries ((k, v) # ps) = (k, datesToEmptyObjects v) # datesToEmptyObjectsEntries ps"

text \<open>
  The state of a storage entry at start-up: its text decodes to the empty list; or the
  entry is absent, unreadable or empty, or its text does not decode.
\<close>

definition decodesToEmptyList :: "runtime \<Rightarrow> (string \<Rightarrow> error + string option) \<Rightarrow> string \<Rightarrow> bool" where
  "decodesToEmptyList rt getItem key =
     (case getItem key of
        Inr (Some stored) \<Rightarrow> stored \<noteq> [] \<and> deserializeFromStorage rt stored = Inr (VArr [])
      | _ \<Rightarrow> False)"

definition absentOrCorrupt :: "runtime \<Rightarrow> (string \<Rightarrow> error + string option) \<Rightarrow> string \<Rightarrow> bool" where
  "absentOrCorrupt rt getItem key =
     (case getItem key of
        Inl e \<Rightarrow> True
      | Inr None \<Rightarrow> True
      | Inr (Some stored) \<Rightarrow> stored = [] \<or> isl (deserializeFromStorage rt stored))"

text \<open>Two values give the same result for the read of every field.\<close>

definition sameFields :: "jsval \<Rightarrow> jsval \<Rightarrow> bool" where
  "sameFields a b = (\<forall>k. readField a k = readField b k)"

section \<open>Sample data\<close>

definition sampleRanks :: "Rank list" where
  "sampleRanks = [\<lparr>rank_id = ''r1'', rank_name = ''Officer''\<rparr>, \<lparr>rank_id = ''r2'', rank_name = ''Cadet''\<rparr>]"

definition sampleRankPlans :: "RankPlan list" where
  "sampleRankPlans =
     [\<lparr>rp_id = ''p1'', rp_name = ''2024 Plan'', rp_rankId = ''r1''\<rparr>,
      \<lparr>rp_id = ''p2'', rp_name = ''Cadet Plan'', rp_rankId = ''r2''\<rparr>,
      \<lparr>rp_id = ''p3'', rp_name = ''2025 Plan'', rp_rankId = ''r1''\<rparr>]"

definition sampleAssignment :: "string \<Rightarrow> string \<Rightarrow> int \<Rightarrow> int \<Rightarrow> Assignment" where
  "sampleAssignment i p s e =
     \<lparr>a_id = i, a_name = None, a_type = TMain,
      planStartDate = ValidDate s, planEndDate = ValidDate e,
      actualStartDate = None, actualEndDate = None, rankPlanId = p\<rparr>"

definition sampleAssignments :: "Assignment list" where
  "sampleAssignments =
     [sampleAssignment ''a1'' ''p1'' 1704067200000 1706659200000,
      sampleAssignment ''a2'' ''p2'' 1704067200000 1704153600000,
      sampleAssignment ''a3'' ''p1'' 1701388800000 1704067200000]"

definition sampleMarkers :: "Marker list" where
  "sampleMarkers = [\<lparr>m_id = ''m1'', m_date = ValidDate 0, m_label = ''New Marker'', m_className = None\<rparr>]"

definition sampleState :: GanttState where
  "sampleState =
     \<lparr>ranks = sampleRanks, rankPlans = sampleRankPlans, assignments = sampleAssignments,
      markers = sampleMarkers, rankModalOpen = False, rankPlanModalOpen = False,
      assignmentModalOpen = False, editingRank = None, editingRankPlan = None,
      editingAssignment = None, selectedRankForPlan = None,
      selectedRankPlanForAssignment = None\<rparr>"

definition staleEditState :: GanttState where
  "staleEditState =
     sampleState\<lparr>editingRank := Some \<lparr>rank_id = ''r9'', rank_name = ''Gone''\<rparr>,
                 editingRankPlan := Some \<lparr>rp_id = ''p9'', rp_name = ''Gone'', rp_rankId = ''r1''\<rparr>,
                 editingAssignment := Some (sampleAssignment ''a9'' ''p1'' 0 1)\<rparr>"

definition sampleAssignmentData :: AssignmentData where
  "sampleAssignmentData =
     \<lparr>ad_name = Some (Some ''Smith''), ad_type = TReliever,
      ad_planStartDate = ValidDate 5, ad_planEndDate = ValidDate 6,
      ad_actualStartDate = Some None, ad_actualEndDate = Some None,
      ad_rankPlanId = ''p2''\<rparr>"

text \<open>
  A runtime for the examples: it reads and writes the four documents of
  \<open>exampleDocuments\<close> and knows one date. The statements below hold for every runtime;
  this one only supplies concrete inputs.
\<close>

definition exampleDocuments :: "(string \<times> jsval) list" where
  "exampleDocuments =
     [(''[]'', VArr []),
      (''[[]]'', VArr [VArr []]),
      (''null'', VNull),
      (''{\"planStartDate\":\"2024-01-01T00:00:00.000Z\"}'',
         VObj [(''planStartDate'', VStr ''2024-01-01T00:00:00.000Z'')])]"

definition exampleRuntime :: runtime where
  "exampleRuntime =
     \<lparr>JSON_parse = map_of exampleDocuments,
      JSON_text = (\<lambda>v. case find (\<lambda>(t, d). d = v) exampleDocuments of
                          Some (t, d) \<Rightarrow> t | None \<Rightarrow> ''?''),
      toISOString = (\<lambda>t. if t = 1704067200000 then ''2024-01-01T00:00:00.000Z'' else ''?''),
      Date_parse = (\<lambda>s. if s = ''2024-01-01T00:00:00.000Z'' then ValidDate 1704067200000
                          else InvalidDate),
      ToString = (\<lambda>v. Inr ''?''),
      StringToNumber = (\<lambda>s. NaN)\<rparr>"

definition exampleStorage :: "string \<Rightarrow> error + string option" where
  "exampleStorage key =
     (if key = ''gantt-ranks'' then Inr (Some ''[[]]'')
      else if key = ''gantt-rankPlans'' then Inr (Some ''{broken'')
      else if key = ''gantt-assignments'' then Inr None
      else if key = ''gantt-markers'' then Inl SecurityError
      else Inr (Some ''''))"

definition decodedAssignment :: jsval where
  "decodedAssignment =
     VObj [(''id'', VStr ''a1''),
           (''planStartDate'', VDate (ValidDate 1704067200000)),
           (''tags'', VArr [VStr ''x'', VNull])]"

definition emptyListStorage :: "string \<Rightarrow> error + string option" where
  "emptyListStorage key = Inr (Some ''[]'')"

definition sampleProps :: GanttProps where
  "sampleProps =
     \<lparr>props_ranks = VArr (map rankVal sampleRanks),
      props_rankPlans = VUndefined,
      props_assignments = VArr (map assignmentVal sampleAssignments),
      props_markers = VArr (map markerVal sampleMarkers)\<rparr>"

section \<open>Properties of the store handlers\<close>

lemma map_update_absent:
  "j \<notin> f ` set xs \<Longrightarrow> map (\<lambda>x. if f x = j then g x else x) xs = xs"
  by (induction xs) auto

text \<open>
  Claim C6. An edit-save of a Rank, a RankPlan or an Assignment whose id is not in the
  collection (the entity under edit is no longer stored), and a move of an Assignment with
  such an id, leave all four collections as they were. The handlers are total functions: no
  error is raised.
\<close>

theorem update_missing_id_noop:
  "(editingRank st = Some r \<and> rank_id r \<notin> rank_id ` set (ranks st) \<longrightarrow>
      ranks (handleSaveRank uuid rd st) = ranks st
      \<and> rankPlans (handleSaveRank uuid rd st) = rankPlans st
      \<and> assignments (handleSaveRank uuid rd st) = assignments st
      \<and> markers (handleSaveRank uuid rd st) = markers st)
   \<and> (editingRankPlan st = Some rp \<and> rp_id rp \<notin> rp_id ` set (rankPlans st) \<longrightarrow>
      ranks (handleSaveRankPlan uuid rpd st) = ranks st
      \<and> rankPlans (handleSaveRankPlan uuid rpd st) = rankPlans st
      \<and> assignments (handleSaveRankPlan uuid rpd st) = assignments st
      \<and> markers (handleSaveRankPlan uuid rpd st) = markers st)
   \<and> (editingAssignment st = Some a \<and> a_id a \<notin> a_id ` set (assignments st) \<longrightarrow>
      ranks (handleSaveAssignment uuid ad st) = ranks st
      \<and> rankPlans (handleSaveAssignment uuid ad st) = rankPlans st
      \<and> assignments (handleSaveAssignment uuid ad st) = assignments st
      \<and> markers (handleSaveAssignment uuid ad st) = markers st)
   \<and> (i \<notin> a_id ` set (assignments st) \<longrightarrow>
      ranks (handleMoveAssignment i s e st) = ranks st
      \<and> rankPlans (handleMoveAssignment i s e st) = rankPlans st
      \<and> assignments (handleMoveAssignment i s e st) = assignments st
      \<and> markers (handleMoveAssignment i s e st) = markers st)"
  by (auto simp: handleSaveRank_def handleSaveRankPlan_def handleSaveAssignment_def
      handleMoveAssignment_def map_update_absent split: option.splits)

theorem update_missing_id_noop_witness:
  "editingRank staleEditState = Some \<lparr>rank_id = ''r9'', rank_name = ''Gone''\<rparr>
   \<and> ''r9'' \<notin> rank_id ` set (ranks staleEditState)
   \<and> ranks (handleSaveRank ''u1'' \<lparr>rd_name = ''Major''\<rparr> staleEditState) = sampleRanks
   \<and> editingRankPlan staleEditState = Some \<lparr>rp_id = ''p9'', rp_name = ''Gone'', rp_rankId = ''r1''\<rparr>
   \<and> ''p9'' \<notin> rp_id ` set (rankPlans staleEditState)
   \<and> rankPlans (handleSaveRankPlan ''u1'' \<lparr>rpd_name = ''X'', rpd_rankId = ''r2''\<rparr> staleEditState)
       = sampleRankPlans
   \<and> editingAssignment staleEditState = Some (sampleAssignment ''a9'' ''p1'' 0 1)
   \<and> ''a9'' \<notin> a_id ` set (assignments staleEditState)
   \<and> assignments (handleSaveAssignment ''u1'' sampleAssignmentData staleEditState)
       = sampleAssignments
   \<and> assignments (handleMoveAssignment ''a9'' (ValidDate 7) (Some (ValidDate 8)) staleEditState)
       = sampleAssignments"
proof -
  let ?r = "\<lparr>rank_id = ''r9'', rank_name = ''Gone''\<rparr>"
  let ?rp = "\<lparr>rp_id = ''p9'', rp_name = ''Gone'', rp_rankId = ''r1''\<rparr>"
  let ?a = "sampleAssignment ''a9'' ''p1'' 0 1"
  have e1: "editingRank staleEditState = Some ?r"
    and e2: "editingRankPlan staleEditState = Some ?rp"
    and e3: "editingAssignment staleEditState = Some ?a"
    and c1: "ranks staleEditState = sampleRanks"
    and c2: "rankPlans staleEditState = sampleRankPlans"
    and c3: "assignments staleEditState = sampleAssignments"
    by (simp_all add: staleEditState_def sampleState_def)
  have n1: "rank_id ?r \<notin> rank_id ` set (ranks staleEditState)"
    by (simp add: c1 sampleRanks_def)
  have n2: "rp_id ?rp \<notin> rp_id ` set (rankPlans staleEditState)"
    by (simp add: c2 sampleRankPlans_def)
  have n3: "a_id ?a \<notin> a_id ` set (assignments staleEditState)"
    by (simp add: c3 sampleAssignments_def sampleAssignment_def)
  have n4: "''a9'' \<notin> a_id ` set (assignments staleEditState)"
    by (simp add: c3 sampleAssignments_def sampleAssignment_def)
  note t = update_missing_id_noop [of staleEditState ?r "''u1''" "\<lparr>rd_name = ''Major''\<rparr>"
      ?rp "\<lparr>rpd_name = ''X'', rpd_rankId = ''r2''\<rparr>" ?a sampleAssignmentData
      "''a9''" "ValidDate 7" "Some (ValidDate 8)"]
  have r1: "ranks (handleSaveRank ''u1'' \<lparr>rd_name = ''Major''\<rparr> staleEditState) = ranks staleEditState"
    using t e1 n1 by blast
  have r2: "rankPlans (handleSaveRankPlan ''u1'' \<lparr>rpd_name = ''X'', rpd_rankId = ''r2''\<rparr> staleEditState)
      = rankPlans staleEditState"
    using t e2 n2 by blast
  have r3: "assignments (handleSaveAssignment ''u1'' sampleAssignmentData staleEditState)
      = assignments staleEditState"
    using t e3 n3 by blast
  have r4: "assignments (handleMoveAssignment ''a9'' (ValidDate 7) (Some (ValidDate 8)) staleEditState)
      = assignments staleEditState"
    using t n4 by blast
  have m1: "''r9'' \<notin> rank_id ` set (ranks staleEditState)" using n1 by simp
  have m2: "''p9'' \<notin> rp_id ` set (rankPlans staleEditState)" using n2 by simp
  show ?thesis
    using e1 e2 e3 m1 m2 n4 r1 r2 r3 r4 c1 c2 c3 by simp
qed

text \<open>
  Claim C7. After \<open>handleDeleteAssignment i\<close> no assignment with id \<open>i\<close> is left; the
  assignments with another id are the same, in the same order and as often as before; when
  no assignment has id \<open>i\<close> the list is unchanged; the other collections are untouched.
\<close>

theorem delete_assignment_exact:
  "(\<forall>a \<in> set (assignments (handleDeleteAssignment i st)). a_id a \<noteq> i)
   \<and> filter (\<lambda>a. a_id a \<noteq> i) (assignments (handleDeleteAssignment i st))
       = filter (\<lambda>a. a_id a \<noteq> i) (assignments st)
   \<and> subseq (assignments (handleDeleteAssignment i st)) (assignments st)
   \<and> (\<forall>a. a_id a \<noteq> i \<longrightarrow>
         count_list (assignments (handleDeleteAssignment i st)) a = count_list (assignments st) a)
   \<and> (i \<notin> a_id ` set (assignments st) \<longrightarrow>
         assignments (handleDeleteAssignment i st) = assignments st)
   \<and> ranks (handleDeleteAssignment i st) = ranks st
   \<and> rankPlans (handleDeleteAssignment i st) = rankPlans st
   \<and> markers (handleDeleteAssignment i st) = markers st"
proof -
  have c: "\<And>a xs. a_id a \<noteq> i \<Longrightarrow> count_list (filter (\<lambda>a. a_id a \<noteq> i) xs) a = count_list xs a"
  proof -
    fix a :: "'a Assignment_scheme" and xs
    assume "a_id a \<noteq> i"
    then show "count_list (filter (\<lambda>a. a_id a \<noteq> i) xs) a = count_list xs a"
      by (induction xs) auto
  qed
  have n: "i \<notin> a_id ` set (assignments st) \<Longrightarrow> filter (\<lambda>a. a_id a \<noteq> i) (assignments st) = assignments st"
    by (auto simp: filter_id_conv)
  show ?thesis
    using n by (simp add: handleDeleteAssignment_def c)
qed

theorem delete_assignment_exact_witness:
  "''a2'' \<in> a_id ` set (assignments sampleState)
   \<and> assignments (handleDeleteAssignment ''a2'' sampleState)
       = [sampleAssignment ''a1'' ''p1'' 1704067200000 1706659200000,
          sampleAssignment ''a3'' ''p1'' 1701388800000 1704067200000]
   \<and> ''a9'' \<notin> a_id ` set (assignments sampleState)
   \<and> assignments (handleDeleteAssignment ''a9'' sampleState) = sampleAssignments"
proof -
  have as: "assignments sampleState = sampleAssignments"
    by (simp add: sampleState_def)
  have h9: "''a9'' \<notin> a_id ` set (assignments sampleState)"
    by (simp add: as sampleAssignments_def sampleAssignment_def)
  have h2: "''a2'' \<in> a_id ` set (assignments sampleState)"
    by (simp add: as sampleAssignments_def sampleAssignment_def)
  have r9: "assignments (handleDeleteAssignment ''a9'' sampleState) = assignments sampleState"
    using delete_assignment_exact [of "''a9''" sampleState] h9 by blast
  have r2: "assignments (handleDeleteAssignment ''a2'' sampleState)
       = [sampleAssignment ''a1'' ''p1'' 1704067200000 1706659200000,
          sampleAssignment ''a3'' ''p1'' 1701388800000 1704067200000]"
    by (simp add: handleDeleteAssignment_def as sampleAssignments_def sampleAssignment_def)
  show ?thesis using h9 h2 r9 r2 as by simp
qed

section \<open>Properties of grouping\<close>

lemma groupBy_step:
  "foldl (\<lambda>result v.
              case result (key v) of
                Some g \<Rightarrow> result(key v \<mapsto> g @ [v])
              | None \<Rightarrow> result(key v \<mapsto> [v])) m xs k =
   (case m k of
      Some g \<Rightarrow> Some (g @ filter (\<lambda>x. key x = k) xs)
    | None \<Rightarrow> (if filter (\<lambda>x. key x = k) xs = [] then None else Some (filter (\<lambda>x. key x = k) xs)))"
proof (induction xs arbitrary: m)
  case Nil
  then show ?case by (simp split: option.splits)
next
  case (Cons x xs)
  show ?case
    by (simp add: Cons.IH split: option.splits)
qed

lemma groupBy_lookup:
  "groupBy key xs k =
     (if filter (\<lambda>x. key x = k) xs = [] then None else Some (filter (\<lambda>x. key x = k) xs))"
  by (simp add: groupBy_def groupBy_step)

lemma groupBy_members:
  "groupBy key xs k = Some g \<Longrightarrow> g \<noteq> [] \<and> g = filter (\<lambda>x. key x = k) xs"
  by (simp add: groupBy_lookup split: if_splits)

lemma groupBy_unique_group:
  assumes "x \<in> set xs"
  shows "\<exists>!k. \<exists>g. groupBy key xs k = Some g \<and> x \<in> set g"
proof
  have "filter (\<lambda>y. key y = key x) xs \<noteq> []"
    using assms by (auto simp: filter_empty_conv)
  then show "\<exists>g. groupBy key xs (key x) = Some g \<and> x \<in> set g"
    using assms by (simp add: groupBy_lookup)
next
  fix k assume "\<exists>g. groupBy key xs k = Some g \<and> x \<in> set g"
  then show "k = key x"
    by (auto dest!: groupBy_members)
qed

lemma groupBy_union: "\<Union> (set ` ran (groupBy key xs)) = set xs"
proof
  show "\<Union> (set ` ran (groupBy key xs)) \<subseteq> set xs"
    by (auto simp: ran_def dest!: groupBy_members)
next
  show "set xs \<subseteq> \<Union> (set ` ran (groupBy key xs))"
  proof
    fix x assume "x \<in> set xs"
    then obtain k g where "groupBy key xs k = Some g" "x \<in> set g"
      using groupBy_unique_group[of x xs key] by blast
    then show "x \<in> \<Union> (set ` ran (groupBy key xs))"
      by (auto simp: ran_def)
  qed
qed

lemma count_list_filter_key:
  "count_list (filter (\<lambda>y. key y = key x) xs) x = count_list xs x"
  by (induction xs) auto

lemma groupBy_own_group:
  assumes "x \<in> set xs"
  shows "\<exists>g. groupBy key xs (key x) = Some g \<and> x \<in> set g \<and> count_list g x = count_list xs x"
proof -
  have "filter (\<lambda>y. key y = key x) xs \<noteq> []"
    using assms by (auto simp: filter_empty_conv)
  then show ?thesis
    using assms by (simp add: groupBy_lookup count_list_filter_key)
qed

lemma groupBy_dom: "dom (groupBy key xs) = key ` set xs"
  by (auto simp: dom_def groupBy_lookup filter_empty_conv)

lemma groupBy_invariant: "groupingInvariant key xs (groupBy key xs)"
  unfolding groupingInvariant_def
proof (intro conjI)
  show "\<forall>x \<in> set xs. \<exists>!k. \<exists>g. groupBy key xs k = Some g \<and> x \<in> set g"
    using groupBy_unique_group by fast
  show "\<forall>x \<in> set xs. \<exists>g. groupBy key xs (key x) = Some g \<and> x \<in> set g
          \<and> count_list g x = count_list xs x"
    using groupBy_own_group by fast
  show "\<Union> (set ` ran (groupBy key xs)) = set xs"
    by (rule groupBy_union)
  show "\<forall>k g. groupBy key xs k = Some g \<longrightarrow> g = filter (\<lambda>x. key x = k) xs"
    by (simp add: groupBy_members)
  show "\<forall>k g. groupBy key xs k = Some g \<longrightarrow> g \<noteq> []"
    by (simp add: groupBy_members)
  show "dom (groupBy key xs) = key ` set xs"
    by (rule groupBy_dom)
qed

lemma groupingInvariant_dom: "groupingInvariant key xs groups \<Longrightarrow> dom groups = key ` set xs"
  unfolding groupingInvariant_def by (elim conjE)

lemma groupingInvariant_group:
  "groupingInvariant key xs groups \<Longrightarrow> groups k = Some g \<Longrightarrow> g = filter (\<lambda>x. key x = k) xs"
  unfolding groupingInvariant_def by (elim conjE) fast

text \<open>
  Claim C3. Grouping the RankPlans by \<open>rankId\<close> and the Assignments by \<open>rankPlanId\<close>
  puts each element in exactly one group, the one of its foreign key; the groups together
  hold exactly the elements of the list; each group lists its members in the order of the
  original list; and there is no group for a key without members.
\<close>

theorem grouping_invariant:
  "groupingInvariant rp_rankId rps (rankPlansByRank rps)
   \<and> groupingInvariant rankPlanId as (assignmentsByRankPlan as)"
  by (simp add: rankPlansByRank_def assignmentsByRankPlan_def groupBy_invariant)

theorem grouping_invariant_witness:
  "rankPlansByRank sampleRankPlans ''r1''
     = Some [\<lparr>rp_id = ''p1'', rp_name = ''2024 Plan'', rp_rankId = ''r1''\<rparr>,
             \<lparr>rp_id = ''p3'', rp_name = ''2025 Plan'', rp_rankId = ''r1''\<rparr>]
   \<and> rankPlansByRank sampleRankPlans ''r3'' = None
   \<and> assignmentsByRankPlan sampleAssignments ''p2''
     = Some [sampleAssignment ''a2'' ''p2'' 1704067200000 1704153600000]
   \<and> assignmentsByRankPlan sampleAssignments ''p3'' = None"
proof -
  note t = grouping_invariant [of sampleRankPlans sampleAssignments]
  have d1: "dom (rankPlansByRank sampleRankPlans) = rp_rankId ` set sampleRankPlans"
    using t groupingInvariant_dom by fast
  have f1: "\<And>k g. rankPlansByRank sampleRankPlans k = Some g
               \<Longrightarrow> g = filter (\<lambda>x. rp_rankId x = k) sampleRankPlans"
    using t groupingInvariant_group by fast
  have d2: "dom (assignmentsByRankPlan sampleAssignments) = rankPlanId ` set sampleAssignments"
    using t groupingInvariant_dom by fast
  have f2: "\<And>k g. assignmentsByRankPlan sampleAssignments k = Some g
               \<Longrightarrow> g = filter (\<lambda>x. rankPlanId x = k) sampleAssignments"
    using t groupingInvariant_group by fast
  have "''r1'' \<in> rp_rankId ` set sampleRankPlans"
    by (simp add: sampleRankPlans_def)
  then obtain g where g: "rankPlansByRank sampleRankPlans ''r1'' = Some g"
    using d1 by blast
  then have "g = filter (\<lambda>x. rp_rankId x = ''r1'') sampleRankPlans"
    using f1 by blast
  then have a: "rankPlansByRank sampleRankPlans ''r1''
     = Some [\<lparr>rp_id = ''p1'', rp_name = ''2024 Plan'', rp_rankId = ''r1''\<rparr>,
             \<lparr>rp_id = ''p3'', rp_name = ''2025 Plan'', rp_rankId = ''r1''\<rparr>]"
    using g by (simp add: sampleRankPlans_def)
  have "''r3'' \<notin> rp_rankId ` set sampleRankPlans"
    by (simp add: sampleRankPlans_def)
  then have b: "rankPlansByRank sampleRankPlans ''r3'' = None"
    using d1 by blast
  have "''p2'' \<in> rankPlanId ` set sampleAssignments"
    by (simp add: sampleAssignments_def sampleAssignment_def)
  then obtain h where h: "assignmentsByRankPlan sampleAssignments ''p2'' = Some h"
    using d2 by blast
  then have "h = filter (\<lambda>x. rankPlanId x = ''p2'') sampleAssignments"
    using f2 by blast
  then have c: "assignmentsByRankPlan sampleAssignments ''p2''
     = Some [sampleAssignment ''a2'' ''p2'' 1704067200000 1704153600000]"
    using h by (simp add: sampleAssignments_def sampleAssignment_def)
  have "''p3'' \<notin> rankPlanId ` set sampleAssignments"
    by (simp add: sampleAssignments_def sampleAssignment_def)
  then have d: "assignmentsByRankPlan sampleAssignments ''p3'' = None"
    using d2 by blast
  show ?thesis using a b c d by simp
qed

section \<open>Properties of the projection\<close>

lemma foldl_pick_min:
  "foldl (\<lambda>m x. if lessNum x m then x else m) (Num a) (map (\<lambda>t. Num (of_int t)) ts)
     = Num (foldl min a (map of_int ts))"
  by (induction ts arbitrary: a) (auto simp: min_def)

lemma foldl_pick_max:
  "foldl (\<lambda>m x. if lessNum m x then x else m) (Num a) (map (\<lambda>t. Num (of_int t)) ts)
     = Num (foldl max a (map of_int ts))"
  by (induction ts arbitrary: a) (auto simp: max_def)

lemma foldl_min_Min: "foldl min (a :: 'a :: linorder) xs = Min (set (a # xs))"
proof -
  have "foldl min a xs = fold min xs a"
    by (induction xs arbitrary: a) (auto simp: min.commute)
  then show ?thesis using Min.set_eq_fold[of a xs] by simp
qed

lemma foldl_max_Max: "foldl max (a :: 'a :: linorder) xs = Max (set (a # xs))"
proof -
  have "foldl max a xs = fold max xs a"
    by (induction xs arbitrary: a) (auto simp: max.commute)
  then show ?thesis using Max.set_eq_fold[of a xs] by simp
qed

lemma NaN_notin_times: "NaN \<notin> set (map (\<lambda>t. Num (of_int t)) ts)"
  by auto

lemma Math_min_valid:
  assumes "ts \<noteq> []"
  shows "Math_min (map (\<lambda>t. Num (of_int t)) ts) = Num (of_int (Min (set ts)))"
proof -
  obtain t ts' where ts: "ts = t # ts'" using assms by (cases ts) auto
  have "Math_min (map (\<lambda>t. Num (of_int t)) ts)
      = foldl (\<lambda>m x. if lessNum x m then x else m) (Num (of_int t)) (map (\<lambda>t. Num (of_int t)) ts')"
    unfolding Math_min_def using NaN_notin_times[of ts] by (simp add: ts)
  also have "\<dots> = Num (Min (set (map rat_of_int ts)))"
    by (simp add: foldl_pick_min foldl_min_Min ts)
  also have "Min (set (map rat_of_int ts)) = rat_of_int (Min (set ts))"
    using assms by (simp add: mono_Min_commute[symmetric] monoI)
  finally show ?thesis .
qed

lemma Math_max_valid:
  assumes "ts \<noteq> []"
  shows "Math_max (map (\<lambda>t. Num (of_int t)) ts) = Num (of_int (Max (set ts)))"
proof -
  obtain t ts' where ts: "ts = t # ts'" using assms by (cases ts) auto
  have "Math_max (map (\<lambda>t. Num (of_int t)) ts)
      = foldl (\<lambda>m x. if lessNum m x then x else m) (Num (of_int t)) (map (\<lambda>t. Num (of_int t)) ts')"
    unfolding Math_max_def using NaN_notin_times[of ts] by (simp add: ts)
  also have "\<dots> = Num (Max (set (map rat_of_int ts)))"
    by (simp add: foldl_pick_max foldl_max_Max ts)
  also have "Max (set (map rat_of_int ts)) = rat_of_int (Max (set ts))"
    using assms by (simp add: mono_Max_commute[symmetric] monoI)
  finally show ?thesis .
qed

lemma timeClip_int:
  "\<bar>t\<bar> \<le> 8640000000000000 \<Longrightarrow> timeClip (Num (of_int t)) = ValidDate t"
proof -
  assume a: "\<bar>t\<bar> \<le> 8640000000000000"
  have "\<bar>rat_of_int t\<bar> \<le> rat_of_int 8640000000000000"
    using a by (metis of_int_abs of_int_le_iff)
  then show ?thesis by (simp add: timeClip_def)
qed

lemma spanBound_min:
  assumes "own \<noteq> []" and "map field own = map ValidDate ts"
    and "\<forall>t \<in> set ts. \<bar>t\<bar> \<le> 8640000000000000"
  shows "spanBound Math_min field today (Own own) = Inr (ValidDate (Min (set ts)))"
proof -
  have ne: "ts \<noteq> []" using assms(1,2) by (metis map_is_Nil_conv)
  have "map (\<lambda>a. getTime (field a)) own = map getTime (map field own)" by simp
  also have "\<dots> = map (\<lambda>t. Num (of_int t)) ts"
    by (simp add: assms(2) getTime_def)
  finally have m: "map (\<lambda>a. getTime (field a)) own = map (\<lambda>t. Num (of_int t)) ts" .
  have "Min (set ts) \<in> set ts" using ne by (simp add: Min_in)
  then have "\<bar>Min (set ts)\<bar> \<le> 8640000000000000" using assms(3) by blast
  then show ?thesis
    using assms(1) by (simp add: spanBound_def m Math_min_valid[OF ne] timeClip_int)
qed

lemma spanBound_max:
  assumes "own \<noteq> []" and "map field own = map ValidDate ts"
    and "\<forall>t \<in> set ts. \<bar>t\<bar> \<le> 8640000000000000"
  shows "spanBound Math_max field today (Own own) = Inr (ValidDate (Max (set ts)))"
proof -
  have ne: "ts \<noteq> []" using assms(1,2) by (metis map_is_Nil_conv)
  have "map (\<lambda>a. getTime (field a)) own = map getTime (map field own)" by simp
  also have "\<dots> = map (\<lambda>t. Num (of_int t)) ts"
    by (simp add: assms(2) getTime_def)
  finally have m: "map (\<lambda>a. getTime (field a)) own = map (\<lambda>t. Num (of_int t)) ts" .
  have "Max (set ts) \<in> set ts" using ne by (simp add: Max_in)
  then have "\<bar>Max (set ts)\<bar> \<le> 8640000000000000" using assms(3) by blast
  then show ?thesis
    using assms(1) by (simp add: spanBound_def m Math_max_valid[OF ne] timeClip_int)
qed

lemma lookupOrEmpty_groupBy:
  "lookupOrEmpty (groupBy key xs) k =
     (if filter (\<lambda>x. key x = k) xs \<noteq> [] then Own (filter (\<lambda>x. key x = k) xs)
      else case objectPrototypeMember k of Some m \<Rightarrow> Inherited m | None \<Rightarrow> Own [])"
  by (simp add: lookupOrEmpty_def groupBy_lookup)

text \<open>
  The span of a RankPlan with assignments, all of whose plan dates are valid dates: the
  least start and the greatest end. The span of a RankPlan without assignments, when its id
  is not the name of a member of \<open>Object.prototype\<close>: the current time, twice.
\<close>

lemma span_of_assignments:
  assumes "own = filter (\<lambda>a. rankPlanId a = rp_id rankPlan) as" and "own \<noteq> []"
    and "map planStartDate own = map ValidDate starts"
    and "map planEndDate own = map ValidDate ends"
    and "\<forall>t \<in> set starts \<union> set ends. \<bar>t\<bar> \<le> 8640000000000000"
  shows "representativeFeature today rankPlan (assignmentsByRankPlan as) =
     Inr \<lparr>feature_id = rp_id rankPlan, feature_name = rp_name rankPlan,
          startAt = ValidDate (Min (set starts)), endAt = ValidDate (Max (set ends)),
          status = \<lparr>status_id = ''default'', status_name = ''Default'',
                     status_color = ''#6B7280''\<rparr>\<rparr>"
proof -
  have l: "lookupOrEmpty (assignmentsByRankPlan as) (rp_id rankPlan) = Own own"
    using assms(1,2) by (simp add: assignmentsByRankPlan_def lookupOrEmpty_groupBy)
  have s: "spanBound Math_min planStartDate today (Own own) = Inr (ValidDate (Min (set starts)))"
    using assms by (intro spanBound_min) auto
  have e: "spanBound Math_max planEndDate today (Own own) = Inr (ValidDate (Max (set ends)))"
    using assms by (intro spanBound_max) auto
  show ?thesis
    by (simp add: representativeFeature_def l s e bindE_def)
qed

lemma span_without_assignments:
  assumes "filter (\<lambda>a. rankPlanId a = rp_id rankPlan) as = []"
    and "objectPrototypeMember (rp_id rankPlan) = None"
  shows "representativeFeature today rankPlan (assignmentsByRankPlan as) =
     Inr \<lparr>feature_id = rp_id rankPlan, feature_name = rp_name rankPlan,
          startAt = today, endAt = today,
          status = \<lparr>status_id = ''default'', status_name = ''Default'',
                     status_color = ''#6B7280''\<rparr>\<rparr>"
  using assms
  by (simp add: representativeFeature_def assignmentsByRankPlan_def lookupOrEmpty_groupBy
      spanBound_def bindE_def)

lemma span_inherited_member:
  assumes "filter (\<lambda>a. rankPlanId a = rp_id rankPlan) as = []"
    and "objectPrototypeMember (rp_id rankPlan) = Some (Some n)" and "0 < n"
  shows "representativeFeature today rankPlan (assignmentsByRankPlan as) = Inl TypeError"
  using assms
  by (simp add: representativeFeature_def assignmentsByRankPlan_def lookupOrEmpty_groupBy
      spanBound_def bindE_def)

text \<open>
  Claim C4. The claim gives every RankPlan without assignments the span from now to now.
  For a RankPlan whose id is \<open>constructor\<close> and that has no assignment, the lookup
  \<open>assignmentsByRankPlan[rankPlan.id] || []\<close> yields the inherited function \<open>Object\<close>,
  whose \<open>length\<close> is 1 and which has no \<open>map\<close> method: the projection throws a
  \<open>TypeError\<close> instead of producing a span.
\<close>

theorem representativeFeature_inherited_key:
  "representativeFeature (ValidDate 1730000000000)
     \<lparr>rp_id = ''constructor'', rp_name = ''2024 Plan'', rp_rankId = ''r1''\<rparr>
     (assignmentsByRankPlan sampleAssignments) = Inl TypeError"
proof -
  have "filter (\<lambda>a. rankPlanId a = ''constructor'') sampleAssignments = []"
    by (simp add: sampleAssignments_def sampleAssignment_def)
  moreover have "objectPrototypeMember ''constructor'' = Some (Some 1)"
    by (simp add: objectPrototypeMember_def)
  ultimately show ?thesis
    by (simp add: representativeFeature_def assignmentsByRankPlan_def lookupOrEmpty_groupBy
      spanBound_def bindE_def)
qed

section \<open>Properties of the codec\<close>

text \<open>
  Claim C2. \<open>JSON.stringify\<close> calls \<open>toJSON\<close> before the replacer, so the replacer of
  \<open>serializeForStorage\<close> never sees a date and returns every value it is given: a valid
  date, at the top or nested in an array and an object, is written as the plain string of its
  ISO timestamp, which is not the tagged wrapper the claim describes.
\<close>

theorem serialize_date_as_plain_string:
  "replacer rt (toJSON_step rt v) = Inr (toJSON_step rt v)
   \<and> serializeForStorage rt (VDate (ValidDate t)) = Inr (Some (JSON_text rt (VStr (toISOString rt t))))
   \<and> serializeForStorage rt (VArr [VObj [(k, VDate (ValidDate t))]])
       = Inr (Some (JSON_text rt (VArr [VObj [(k, VStr (toISOString rt t))]])))
   \<and> VStr (toISOString rt t) \<noteq> dateMarker (toISOString rt t)"
proof -
  have "replacer rt (toJSON_step rt v) = Inr (toJSON_step rt v)"
    by (cases v) (simp_all add: replacer_def toJSON_step_def Date_toJSON_def split: jsdate.splits)
  then show ?thesis
    by (simp add: serializeForStorage_def replacer_def toJSON_step_def Date_toJSON_def
        dateMarker_def)
qed

text \<open>
  Claim C1. In a runtime that parses the text it wrote for an object back to that object, an
  object with a date field comes back from \<open>serializeForStorage\<close> and
  \<open>deserializeFromStorage\<close> with the ISO string of the date in that field: the result is
  not deep-equal to the original and the field is no longer a date.
\<close>

theorem roundtrip_turns_date_into_string:
  assumes "JSON_parse rt (JSON_text rt (VObj [(k, VStr (toISOString rt t))]))
             = Some (VObj [(k, VStr (toISOString rt t))])"
    and "k \<noteq> ''__proto__''"
  shows "\<exists>text. serializeForStorage rt (VObj [(k, VDate (ValidDate t))]) = Inr (Some text)
           \<and> deserializeFromStorage rt text = Inr (VObj [(k, VStr (toISOString rt t))])"
  using assms
  by (auto simp: serializeForStorage_def replacer_def toJSON_step_def Date_toJSON_def
      deserializeFromStorage_def assignProp_def)

theorem roundtrip_turns_date_into_string_witness:
  "\<exists>text. serializeForStorage exampleRuntime
              (VObj [(''planStartDate'', VDate (ValidDate 1704067200000))]) = Inr (Some text)
         \<and> deserializeFromStorage exampleRuntime text
              = Inr (VObj [(''planStartDate'', VStr ''2024-01-01T00:00:00.000Z'')])"
proof -
  have iso: "toISOString exampleRuntime 1704067200000 = ''2024-01-01T00:00:00.000Z''"
    by (simp add: exampleRuntime_def)
  have "JSON_parse exampleRuntime
          (JSON_text exampleRuntime (VObj [(''planStartDate'', VStr ''2024-01-01T00:00:00.000Z'')]))
        = Some (VObj [(''planStartDate'', VStr ''2024-01-01T00:00:00.000Z'')])"
    by (simp add: exampleRuntime_def exampleDocuments_def)
  then show ?thesis
    using roundtrip_turns_date_into_string [of exampleRuntime "''planStartDate''" 1704067200000] iso
    by simp
qed

lemma assignProp_fresh:
  "k \<noteq> ''__proto__'' \<Longrightarrow> k \<notin> fst ` set ps \<Longrightarrow> assignProp ps k v = ps @ [(k, v)]"
  by (simp add: assignProp_def)

lemma convertDates_alreadyDecoded:
  "alreadyDecoded v \<Longrightarrow> convertDates rt v = Inr (datesToEmptyObjects v)"
  "alreadyDecodedElements xs \<Longrightarrow> convertElements rt xs = Inr (datesToEmptyObjectsElements xs)"
  "alreadyDecodedEntries ps \<Longrightarrow> distinct (map fst ps) \<Longrightarrow> ''__proto__'' \<notin> fst ` set ps
     \<Longrightarrow> fst ` set ps \<inter> fst ` set converted = {}
     \<Longrightarrow> convertEntries rt converted ps = Inr (converted @ datesToEmptyObjectsEntries ps)"
proof (induction rt v and rt xs and rt converted ps
    rule: convertDates_convertElements_convertEntries.induct)
  case (3 rt ps)
  have m: "\<not> isDateMarker (VObj ps)" and d: "distinct (map fst ps)"
    and p: "''__proto__'' \<notin> fst ` set ps" and e: "alreadyDecodedEntries ps"
    using "3.prems" by simp_all
  have "convertEntries rt [] ps = Inr ([] @ datesToEmptyObjectsEntries ps)"
    using "3.IH" m d p e by simp
  then show ?case
    using m by (simp del: isDateMarker.simps)
next
  case (12 rt converted k v ps)
  have k: "k \<noteq> ''__proto__''" "k \<notin> fst ` set converted"
    using 12 by auto
  have v: "convertDates rt v = Inr (datesToEmptyObjects v)"
    using 12 by simp
  have "fst ` set ps \<inter> fst ` set (assignProp converted k (datesToEmptyObjects v)) = {}"
    using 12 k by (auto simp: assignProp_fresh)
  then have "convertEntries rt (assignProp converted k (datesToEmptyObjects v)) ps
      = Inr (assignProp converted k (datesToEmptyObjects v) @ datesToEmptyObjectsEntries ps)"
    using 12 v by simp
  then show ?case
    using v k by (simp add: assignProp_fresh)
qed simp_all

lemma convertDates_string: "convertDates rt v = Inr (VStr s) \<Longrightarrow> v = VStr s"
  by (cases v) (auto split: if_splits sum.splits)

lemma convertDates_output:
  "plainKeys v \<Longrightarrow> convertDates rt v = Inr v' \<Longrightarrow> alreadyDecoded v'"
  "plainKeysElements xs \<Longrightarrow> convertElements rt xs = Inr ys \<Longrightarrow> alreadyDecodedElements ys"
  "plainKeysEntries ps \<Longrightarrow> distinct (map fst ps) \<Longrightarrow> fst ` set ps \<inter> fst ` set converted = {}
     \<Longrightarrow> convertEntries rt converted ps = Inr r
     \<Longrightarrow> \<exists>qs. r = converted @ qs \<and> alreadyDecodedEntries qs \<and> distinct (map fst qs)
            \<and> ''__proto__'' \<notin> fst ` set qs \<and> fst ` set qs \<subseteq> fst ` set ps
            \<and> (\<forall>k w. (k, w) \<in> set qs \<longrightarrow> (\<exists>u. (k, u) \<in> set ps \<and> convertDates rt u = Inr w))"
proof (induction rt v and rt xs and rt converted ps arbitrary: v' and ys and r
    rule: convertDates_convertElements_convertEntries.induct)
  case (3 rt ps)
  show ?case
  proof (cases "isDateMarker (VObj ps)")
    case True
    then show ?thesis using "3.prems" by (auto simp del: isDateMarker.simps split: sum.splits)
  next
    case False
    then obtain r where r: "convertEntries rt [] ps = Inr r" and v': "v' = VObj r"
      using "3.prems" by (auto simp del: isDateMarker.simps split: sum.splits)
    have d: "distinct (map fst ps)" and e: "plainKeysEntries ps" using "3.prems" by simp_all
    obtain qs where qs: "r = [] @ qs" "alreadyDecodedEntries qs" "distinct (map fst qs)"
        "''__proto__'' \<notin> fst ` set qs" "fst ` set qs \<subseteq> fst ` set ps"
        "\<forall>k w. (k, w) \<in> set qs \<longrightarrow> (\<exists>u. (k, u) \<in> set ps \<and> convertDates rt u = Inr w)"
      using "3.IH"[OF False e d _ r] by auto
    have "\<not> isDateMarker (VObj qs)"
    proof
      assume m: "isDateMarker (VObj qs)"
      then have "(''__type'', VStr ''Date'') \<in> set qs" by (auto dest: map_of_SomeD)
      then obtain u where u: "(''__type'', u) \<in> set ps" "convertDates rt u = Inr (VStr ''Date'')"
        using qs(6) by blast
      then have "u = VStr ''Date''" by (simp add: convertDates_string)
      then have "map_of ps ''__type'' = Some (VStr ''Date'')" using u d by simp
      moreover have "''value'' \<in> fst ` set ps" using m qs(5) by auto
      ultimately show False using False by simp
    qed
    then show ?thesis using qs v' by simp
  qed
next
  case (4 rt xs)
  then show ?case by (auto split: sum.splits)
next
  case (10 rt x xs)
  then show ?case by (auto split: sum.splits)
next
  case (12 rt converted k v ps)
  obtain w where w: "convertDates rt v = Inr w"
    and r: "convertEntries rt (assignProp converted k w) ps = Inr r"
    using "12.prems" by (auto split: sum.splits)
  have aw: "alreadyDecoded w" using "12.IH"(1) "12.prems" w by simp
  have kf: "k \<notin> fst ` set converted" "k \<notin> fst ` set ps" using "12.prems" by auto
  have e: "plainKeysEntries ps" and d: "distinct (map fst ps)" using "12.prems" by simp_all
  show ?case
  proof (cases "k = ''__proto__''")
    case True
    then have a: "assignProp converted k w = converted" by (simp add: assignProp_def)
    have "fst ` set ps \<inter> fst ` set (assignProp converted k w) = {}"
      using "12.prems" a by auto
    from "12.IH"(2)[OF w e d this r] obtain qs where qs:
        "r = converted @ qs" "alreadyDecodedEntries qs" "distinct (map fst qs)"
        "''__proto__'' \<notin> fst ` set qs" "fst ` set qs \<subseteq> fst ` set ps"
        "\<forall>k w. (k, w) \<in> set qs \<longrightarrow> (\<exists>u. (k, u) \<in> set ps \<and> convertDates rt u = Inr w)"
      using a by auto
    have "fst ` set qs \<subseteq> fst ` set ((k, v) # ps)" using qs(5) by auto
    moreover have "\<forall>k' w'. (k', w') \<in> set qs \<longrightarrow>
        (\<exists>u. (k', u) \<in> set ((k, v) # ps) \<and> convertDates rt u = Inr w')"
      using qs(6) by (meson list.set_intros(2))
    ultimately show ?thesis using qs(1-4) by blast
  next
    case False
    then have a: "assignProp converted k w = converted @ [(k, w)]"
      using kf by (simp add: assignProp_def)
    have "fst ` set ps \<inter> fst ` set (assignProp converted k w) = {}"
      using "12.prems" a kf by auto
    from "12.IH"(2)[OF w e d this r] obtain qs where qs:
        "r = (converted @ [(k, w)]) @ qs" "alreadyDecodedEntries qs" "distinct (map fst qs)"
        "''__proto__'' \<notin> fst ` set qs" "fst ` set qs \<subseteq> fst ` set ps"
        "\<forall>k w. (k, w) \<in> set qs \<longrightarrow> (\<exists>u. (k, u) \<in> set ps \<and> convertDates rt u = Inr w)"
      using a by auto
    have "r = converted @ ((k, w) # qs)" using qs(1) by simp
    moreover have "alreadyDecodedEntries ((k, w) # qs)" using aw qs(2) by simp
    moreover have "distinct (map fst ((k, w) # qs))" using qs(3,5) kf by auto
    moreover have "''__proto__'' \<notin> fst ` set ((k, w) # qs)" using qs(4) False by auto
    moreover have "fst ` set ((k, w) # qs) \<subseteq> fst ` set ((k, v) # ps)" using qs(5) by auto
    moreover have "\<forall>k' w'. (k', w') \<in> set ((k, w) # qs) \<longrightarrow>
        (\<exists>u. (k', u) \<in> set ((k, v) # ps) \<and> convertDates rt u = Inr w')"
      using qs(6) w by auto
    ultimately show ?thesis by blast
  qed
qed auto

text \<open>
  Claim C8, as amended. Applying \<open>convertDates\<close> to an already-decoded value does not
  throw; it returns the value with every native date replaced by an empty object and
  everything else unchanged. (The dates do not remain dates.) This holds in particular of
  every value that \<open>convertDates\<close> itself returned.
\<close>

theorem redecode_replaces_dates:
  "(alreadyDecoded v \<longrightarrow>
      (\<exists>v'. convertDates rt v = Inr v') \<and> convertDates rt v = Inr (datesToEmptyObjects v))
   \<and> (plainKeys parsed \<and> convertDates rt parsed = Inr v \<longrightarrow>
      alreadyDecoded v \<and> convertDates rt v = Inr (datesToEmptyObjects v))"
  using convertDates_alreadyDecoded(1) convertDates_output(1) by blast

theorem redecode_replaces_dates_witness:
  "alreadyDecoded decodedAssignment
   \<and> convertDates exampleRuntime decodedAssignment
       = Inr (VObj [(''id'', VStr ''a1''), (''planStartDate'', VObj []),
                    (''tags'', VArr [VStr ''x'', VNull])])
   \<and> plainKeys (VArr [VObj [(''date'', dateMarker ''2024-01-01T00:00:00.000Z'')]])
   \<and> convertDates exampleRuntime (VArr [VObj [(''date'', dateMarker ''2024-01-01T00:00:00.000Z'')]])
       = Inr (VArr [VObj [(''date'', VDate (ValidDate 1704067200000))]])
   \<and> convertDates exampleRuntime (VArr [VObj [(''date'', VDate (ValidDate 1704067200000))]])
       = Inr (VArr [VObj [(''date'', VObj [])]])"
proof -
  let ?parsed = "VArr [VObj [(''date'', dateMarker ''2024-01-01T00:00:00.000Z'')]]"
  let ?decoded = "VArr [VObj [(''date'', VDate (ValidDate 1704067200000))]]"
  have a: "alreadyDecoded decodedAssignment"
    by (simp add: decodedAssignment_def)
  have e: "datesToEmptyObjects decodedAssignment
       = VObj [(''id'', VStr ''a1''), (''planStartDate'', VObj []),
               (''tags'', VArr [VStr ''x'', VNull])]"
    by (simp add: decodedAssignment_def)
  have r1: "convertDates exampleRuntime decodedAssignment = Inr (datesToEmptyObjects decodedAssignment)"
    using redecode_replaces_dates [of decodedAssignment exampleRuntime] a by blast
  have d: "plainKeys ?parsed"
    by (simp add: dateMarker_def)
  have c: "convertDates exampleRuntime ?parsed = Inr ?decoded"
    by (simp add: dateMarker_def getOwn_def String_of_def assignProp_def exampleRuntime_def)
  have "convertDates exampleRuntime ?decoded = Inr (datesToEmptyObjects ?decoded)"
    using redecode_replaces_dates [of ?decoded exampleRuntime ?parsed] d c by blast
  then have r2: "convertDates exampleRuntime ?decoded = Inr (VArr [VObj [(''date'', VObj [])]])"
    by simp
  show ?thesis using a e r1 d c r2 by simp
qed

text \<open>
  Claim C8 as stated fails: the date field of an already-decoded object is an empty object
  after \<open>convertDates\<close>, not an equal date.
\<close>

theorem redecode_corrupts_dates:
  "alreadyDecoded (VObj [(''date'', VDate (ValidDate 0))])
   \<and> convertDates exampleRuntime (VObj [(''date'', VDate (ValidDate 0))])
       = Inr (VObj [(''date'', VObj [])])
   \<and> convertDates exampleRuntime (VObj [(''date'', VDate (ValidDate 0))])
       \<noteq> Inr (VObj [(''date'', VDate (ValidDate 0))])"
  by (simp add: assignProp_def)

section \<open>Properties of the start-up\<close>

text \<open>
  Claim C5. For every storage, key and default, \<open>loadFromStorage\<close> returns a value and
  never raises: the decoded snapshot when the entry holds a text that decodes, and the
  default when decoding fails, when the entry is absent or empty, and when the storage
  cannot be read.
\<close>

theorem loadFromStorage_never_raises:
  "(\<exists>v. loadFromStorage rt getItem key defaultValue = Inr v)
   \<and> (\<forall>stored decoded.
         getItem key = Inr (Some stored) \<and> stored \<noteq> []
         \<and> deserializeFromStorage rt stored = Inr decoded
         \<longrightarrow> loadFromStorage rt getItem key defaultValue = Inr decoded)
   \<and> (\<forall>stored e.
         getItem key = Inr (Some stored) \<and> deserializeFromStorage rt stored = Inl e
         \<longrightarrow> loadFromStorage rt getItem key defaultValue = Inr defaultValue)
   \<and> (getItem key = Inr None \<or> getItem key = Inr (Some []) \<or> (\<exists>e. getItem key = Inl e)
         \<longrightarrow> loadFromStorage rt getItem key defaultValue = Inr defaultValue)"
  by (auto simp: loadFromStorage_def split: sum.splits option.splits)

theorem loadFromStorage_never_raises_witness:
  "loadFromStorage exampleRuntime exampleStorage ''gantt-ranks'' (VArr []) = Inr (VArr [VArr []])
   \<and> loadFromStorage exampleRuntime exampleStorage ''gantt-rankPlans'' (VArr []) = Inr (VArr [])
   \<and> loadFromStorage exampleRuntime exampleStorage ''gantt-assignments'' (VArr []) = Inr (VArr [])
   \<and> loadFromStorage exampleRuntime exampleStorage ''gantt-markers'' (VArr []) = Inr (VArr [])"
proof -
  have d1: "deserializeFromStorage exampleRuntime ''[[]]'' = Inr (VArr [VArr []])"
    by (simp add: deserializeFromStorage_def exampleRuntime_def exampleDocuments_def)
  have d2: "deserializeFromStorage exampleRuntime ''{broken'' = Inl SyntaxError"
    by (simp add: deserializeFromStorage_def exampleRuntime_def exampleDocuments_def)
  have g1: "exampleStorage ''gantt-ranks'' = Inr (Some ''[[]]'')"
    and g2: "exampleStorage ''gantt-rankPlans'' = Inr (Some ''{broken'')"
    and g3: "exampleStorage ''gantt-assignments'' = Inr None"
    and g4: "exampleStorage ''gantt-markers'' = Inl SecurityError"
    by (simp_all add: exampleStorage_def)
  have "loadFromStorage exampleRuntime exampleStorage ''gantt-ranks'' (VArr []) = Inr (VArr [VArr []])"
    using loadFromStorage_never_raises [of exampleRuntime exampleStorage "''gantt-ranks''" "VArr []"]
      g1 d1 by blast
  moreover
  have "loadFromStorage exampleRuntime exampleStorage ''gantt-rankPlans'' (VArr []) = Inr (VArr [])"
    using loadFromStorage_never_raises [of exampleRuntime exampleStorage "''gantt-rankPlans''" "VArr []"]
      g2 d2 by blast
  moreover
  have "loadFromStorage exampleRuntime exampleStorage ''gantt-assignments'' (VArr []) = Inr (VArr [])"
    using loadFromStorage_never_raises [of exampleRuntime exampleStorage "''gantt-assignments''" "VArr []"]
      g3 by blast
  moreover
  have "loadFromStorage exampleRuntime exampleStorage ''gantt-markers'' (VArr []) = Inr (VArr [])"
    using loadFromStorage_never_raises [of exampleRuntime exampleStorage "''gantt-markers''" "VArr []"]
      g4 by blast
  ultimately show ?thesis by simp
qed

lemma load_empty_list:
  "decodesToEmptyList rt getItem key \<Longrightarrow> loadFromStorage rt getItem key d = Inr (VArr [])"
  by (auto simp: decodesToEmptyList_def loadFromStorage_def split: sum.splits option.splits)

lemma load_absent_or_corrupt:
  "absentOrCorrupt rt getItem key \<Longrightarrow> loadFromStorage rt getItem key d = Inr d"
  by (auto simp: absentOrCorrupt_def loadFromStorage_def isl_def split: sum.splits option.splits)

lemma hasElements_array: "hasElements rt (VArr xs) = Inr (xs \<noteq> [])"
  by (simp add: hasElements_def lengthOf_def greaterThanZero_def positive_def bindE_def)

lemma defineProp_same:
  "distinct (map fst ps) \<Longrightarrow> (k, v) \<in> set ps \<Longrightarrow> defineProp ps k v = ps"
proof -
  assume d: "distinct (map fst ps)" and m: "(k, v) \<in> set ps"
  have "map (\<lambda>(k', v'). if k' = k then (k', v) else (k', v')) ps = ps"
  proof (rule map_idI)
    fix x assume x: "x \<in> set ps"
    obtain k' v' where kv: "x = (k', v')" by (cases x)
    show "(case x of (k', v') \<Rightarrow> if k' = k then (k', v) else (k', v')) = x"
    proof (cases "k' = k")
      case True
      then have "v' = v" using d m x kv by (metis eq_key_imp_eq_value)
      then show ?thesis using True kv by simp
    next
      case False
      then show ?thesis using kv by simp
    qed
  qed
  moreover have "k \<in> fst ` set ps" using m by force
  ultimately show ?thesis by (simp add: defineProp_def)
qed

lemma normalizeMarker_typed: "normalizeMarker rt (markerVal m) = Inr (markerVal m)"
proof -
  let ?ps = "[(''id'', VStr (m_id m)), (''date'', VDate (m_date m)), (''label'', VStr (m_label m))]
           @ optProp ''className'' VStr (m_className m)"
  have d: "distinct (map fst ?ps)" by (simp add: optProp_def split: option.splits)
  have i: "(''date'', VDate (m_date m)) \<in> set ?ps" by simp
  have r: "readField (markerVal m) ''date'' = Inr (VDate (m_date m))"
    by (simp add: readField_def markerVal_def getOwn_def)
  have s: "spreadProps (markerVal m) = ?ps" by (simp add: spreadProps_def markerVal_def)
  show ?thesis
    unfolding normalizeMarker_def r s
    using defineProp_same[OF d i]
    by (simp add: bindE_def normalizeDate_def instanceofDate_def markerVal_def)
qed

lemma mapE_all_Inr: "(\<And>x. x \<in> set xs \<Longrightarrow> f x = Inr (g x)) \<Longrightarrow> mapE f xs = Inr (map g xs)"
  by (induction xs) (auto simp: bindE_def)

lemma normalizeAssignment_typed:
  "\<exists>extra. normalizeAssignment rt (assignmentVal a) = Inr extra \<and> sameFields extra (assignmentVal a)"
  by (cases "a_name a"; cases "actualStartDate a"; cases "actualEndDate a")
    (simp_all add: normalizeAssignment_def assignmentVal_def optProp_def readField_def getOwn_def
      bindE_def normalizeDate_def normalizeOptionalDate_def instanceofDate_def isTruthy_def
      spreadProps_def defineProp_def sameFields_def)

lemma mapE_sameFields:
  "\<exists>ys. mapE (normalizeAssignment rt) (map assignmentVal as) = Inr ys
        \<and> list_all2 sameFields ys (map assignmentVal as)"
proof (induction as)
  case Nil
  then show ?case by simp
next
  case (Cons a as)
  obtain y where y: "normalizeAssignment rt (assignmentVal a) = Inr y" "sameFields y (assignmentVal a)"
    using normalizeAssignment_typed by blast
  obtain ys where ys: "mapE (normalizeAssignment rt) (map assignmentVal as) = Inr ys"
      "list_all2 sameFields ys (map assignmentVal as)"
    using Cons.IH by blast
  show ?case using y ys by (simp add: bindE_def)
qed

text \<open>
  Claim C10. When the entry of a collection decodes to the empty list, the initialiser
  returns the initial values of the props (the empty list for a prop that is not given), as
  it does when the entry is absent or corrupt: then Ranks and RankPlans start as the initial
  array itself, Markers given as typed markers start as the same values, and Assignments
  given as typed assignments start as values with the same fields (an optional date without
  value becomes an explicit \<open>undefined\<close>).
\<close>

theorem empty_snapshot_uses_initial_values:
  "(decodesToEmptyList rt getItem ''gantt-ranks'' \<longrightarrow>
      initRanks rt getItem props = Inr (defaultParam (props_ranks props)))
   \<and> (decodesToEmptyList rt getItem ''gantt-rankPlans'' \<longrightarrow>
      initRankPlans rt getItem props = Inr (defaultParam (props_rankPlans props)))
   \<and> (decodesToEmptyList rt getItem ''gantt-assignments'' \<longrightarrow>
      initAssignments rt getItem props = Inr (defaultParam (props_assignments props)))
   \<and> (decodesToEmptyList rt getItem ''gantt-markers'' \<longrightarrow>
      initMarkers rt getItem props = Inr (defaultParam (props_markers props)))
   \<and> (absentOrCorrupt rt getItem ''gantt-ranks'' \<and> defaultParam (props_ranks props) = VArr rs \<longrightarrow>
      initRanks rt getItem props = Inr (VArr rs))
   \<and> (absentOrCorrupt rt getItem ''gantt-rankPlans'' \<and> defaultParam (props_rankPlans props) = VArr rps \<longrightarrow>
      initRankPlans rt getItem props = Inr (VArr rps))
   \<and> (absentOrCorrupt rt getItem ''gantt-assignments''
        \<and> defaultParam (props_assignments props) = VArr (map assignmentVal as) \<longrightarrow>
      (\<exists>ys. initAssignments rt getItem props = Inr (VArr ys)
            \<and> list_all2 sameFields ys (map assignmentVal as)))
   \<and> (absentOrCorrupt rt getItem ''gantt-markers''
        \<and> defaultParam (props_markers props) = VArr (map markerVal ms) \<longrightarrow>
      initMarkers rt getItem props = Inr (VArr (map markerVal ms)))"
proof (intro conjI impI)
  assume "decodesToEmptyList rt getItem ''gantt-ranks''"
  then show "initRanks rt getItem props = Inr (defaultParam (props_ranks props))"
    by (simp add: initRanks_def Let_def load_empty_list hasElements_array bindE_def)
next
  assume "decodesToEmptyList rt getItem ''gantt-rankPlans''"
  then show "initRankPlans rt getItem props = Inr (defaultParam (props_rankPlans props))"
    by (simp add: initRankPlans_def Let_def load_empty_list hasElements_array bindE_def)
next
  assume "decodesToEmptyList rt getItem ''gantt-assignments''"
  then show "initAssignments rt getItem props = Inr (defaultParam (props_assignments props))"
    by (simp add: initAssignments_def Let_def load_empty_list hasElements_array bindE_def)
next
  assume "decodesToEmptyList rt getItem ''gantt-markers''"
  then show "initMarkers rt getItem props = Inr (defaultParam (props_markers props))"
    by (simp add: initMarkers_def Let_def load_empty_list hasElements_array bindE_def)
next
  assume a: "absentOrCorrupt rt getItem ''gantt-ranks'' \<and> defaultParam (props_ranks props) = VArr rs"
  show "initRanks rt getItem props = Inr (VArr rs)"
    using a by (simp add: initRanks_def Let_def load_absent_or_corrupt hasElements_array bindE_def)
next
  assume a: "absentOrCorrupt rt getItem ''gantt-rankPlans'' \<and> defaultParam (props_rankPlans props) = VArr rps"
  show "initRankPlans rt getItem props = Inr (VArr rps)"
    using a by (simp add: initRankPlans_def Let_def load_absent_or_corrupt hasElements_array bindE_def)
next
  assume a: "absentOrCorrupt rt getItem ''gantt-assignments''
        \<and> defaultParam (props_assignments props) = VArr (map assignmentVal as)"
  have "initAssignments rt getItem props =
      (if map assignmentVal as \<noteq> [] then arrayMap (normalizeAssignment rt) (VArr (map assignmentVal as))
       else Inr (VArr (map assignmentVal as)))"
    using a by (simp add: initAssignments_def Let_def load_absent_or_corrupt hasElements_array bindE_def)
  moreover obtain ys where "mapE (normalizeAssignment rt) (map assignmentVal as) = Inr ys"
      "list_all2 sameFields ys (map assignmentVal as)"
    using mapE_sameFields by blast
  ultimately show "\<exists>ys. initAssignments rt getItem props = Inr (VArr ys)
            \<and> list_all2 sameFields ys (map assignmentVal as)"
    by (cases "as = []") (simp_all add: arrayMap_def bindE_def)
next
  assume a: "absentOrCorrupt rt getItem ''gantt-markers''
        \<and> defaultParam (props_markers props) = VArr (map markerVal ms)"
  have "initMarkers rt getItem props =
      (if map markerVal ms \<noteq> [] then arrayMap (normalizeMarker rt) (VArr (map markerVal ms))
       else Inr (VArr (map markerVal ms)))"
    using a by (simp add: initMarkers_def Let_def load_absent_or_corrupt hasElements_array bindE_def)
  moreover have "mapE (normalizeMarker rt) (map markerVal ms) = Inr (map id (map markerVal ms))"
    by (rule mapE_all_Inr) (auto simp: normalizeMarker_typed)
  ultimately show "initMarkers rt getItem props = Inr (VArr (map markerVal ms))"
    by (simp add: arrayMap_def bindE_def)
qed

theorem empty_snapshot_uses_initial_values_witness:
  "decodesToEmptyList exampleRuntime emptyListStorage ''gantt-ranks''
   \<and> initRanks exampleRuntime emptyListStorage sampleProps = Inr (VArr (map rankVal sampleRanks))
   \<and> decodesToEmptyList exampleRuntime emptyListStorage ''gantt-rankPlans''
   \<and> initRankPlans exampleRuntime emptyListStorage sampleProps = Inr (VArr [])
   \<and> decodesToEmptyList exampleRuntime emptyListStorage ''gantt-assignments''
   \<and> initAssignments exampleRuntime emptyListStorage sampleProps
       = Inr (VArr (map assignmentVal sampleAssignments))
   \<and> decodesToEmptyList exampleRuntime emptyListStorage ''gantt-markers''
   \<and> initMarkers exampleRuntime emptyListStorage sampleProps = Inr (VArr (map markerVal sampleMarkers))
   \<and> absentOrCorrupt exampleRuntime exampleStorage ''gantt-rankPlans''
   \<and> initRankPlans exampleRuntime exampleStorage sampleProps = Inr (VArr [])
   \<and> absentOrCorrupt exampleRuntime exampleStorage ''gantt-assignments''
   \<and> (\<exists>ys. initAssignments exampleRuntime exampleStorage sampleProps = Inr (VArr ys)
          \<and> list_all2 sameFields ys (map assignmentVal sampleAssignments))
   \<and> absentOrCorrupt exampleRuntime exampleStorage ''gantt-markers''
   \<and> initMarkers exampleRuntime exampleStorage sampleProps = Inr (VArr (map markerVal sampleMarkers))"
proof -
  have d: "\<And>key. decodesToEmptyList exampleRuntime emptyListStorage key"
    by (simp add: decodesToEmptyList_def emptyListStorage_def deserializeFromStorage_def
        exampleRuntime_def exampleDocuments_def)
  have c2: "absentOrCorrupt exampleRuntime exampleStorage ''gantt-rankPlans''"
    by (simp add: absentOrCorrupt_def exampleStorage_def deserializeFromStorage_def
        exampleRuntime_def exampleDocuments_def)
  have c3: "absentOrCorrupt exampleRuntime exampleStorage ''gantt-assignments''"
    by (simp add: absentOrCorrupt_def exampleStorage_def)
  have c4: "absentOrCorrupt exampleRuntime exampleStorage ''gantt-markers''"
    by (simp add: absentOrCorrupt_def exampleStorage_def)
  have p1: "defaultParam (props_ranks sampleProps) = VArr (map rankVal sampleRanks)"
    and p2: "defaultParam (props_rankPlans sampleProps) = VArr []"
    and p3: "defaultParam (props_assignments sampleProps) = VArr (map assignmentVal sampleAssignments)"
    and p4: "defaultParam (props_markers sampleProps) = VArr (map markerVal sampleMarkers)"
    by (simp_all add: sampleProps_def defaultParam_def)
  note t = empty_snapshot_uses_initial_values [of exampleRuntime emptyListStorage sampleProps]
  note u = empty_snapshot_uses_initial_values [of exampleRuntime exampleStorage sampleProps
      "[]" "[]" sampleAssignments sampleMarkers]
  have r1: "initRanks exampleRuntime emptyListStorage sampleProps = Inr (VArr (map rankVal sampleRanks))"
    using t d p1 by metis
  have r2: "initRankPlans exampleRuntime emptyListStorage sampleProps = Inr (VArr [])"
    using t d p2 by metis
  have r3: "initAssignments exampleRuntime emptyListStorage sampleProps
       = Inr (VArr (map assignmentVal sampleAssignments))"
    using t d p3 by metis
  have r4: "initMarkers exampleRuntime emptyListStorage sampleProps = Inr (VArr (map markerVal sampleMarkers))"
    using t d p4 by metis
  have s2: "initRankPlans exampleRuntime exampleStorage sampleProps = Inr (VArr [])"
    using u c2 p2 by blast
  have s3: "\<exists>ys. initAssignments exampleRuntime exampleStorage sampleProps = Inr (VArr ys)
          \<and> list_all2 sameFields ys (map assignmentVal sampleAssignments)"
    using u c3 p3 by blast
  have s4: "initMarkers exampleRuntime exampleStorage sampleProps = Inr (VArr (map markerVal sampleMarkers))"
    using u c4 p4 by blast
  show ?thesis
    using d c2 c3 c4 r1 r2 r3 r4 s2 s3 s4 by blast
qed

section \<open>Properties of the clear command\<close>

lemma serialize_empty_array: "serializeForStorage rt (VArr []) = Inr (Some (JSON_text rt (VArr [])))"
  by (simp add: serializeForStorage_def replacer_def toJSON_step_def)

lemma saveToStorage_empty:
  "saveToStorage rt key (VArr []) storage = storage(key \<mapsto> JSON_text rt (VArr []))"
  by (simp add: saveToStorage_def serialize_empty_array)

text \<open>
  Claim C9. The confirmed clear command empties the four collections, and the handler
  removes the four storage entries; the render that follows finds four new arrays and its
  persistence effects write the text of the empty list under each of the four keys. The
  entries are present afterwards, where the claim says they are absent.
\<close>

theorem clear_command_rewrites_entries:
  "ranks (mem (clearCommand rt True w)) = []
   \<and> rankPlans (mem (clearCommand rt True w)) = []
   \<and> assignments (mem (clearCommand rt True w)) = []
   \<and> markers (mem (clearCommand rt True w)) = []
   \<and> localStorage (fst (handleClearStorage True w)) ''gantt-ranks'' = None
   \<and> localStorage (fst (handleClearStorage True w)) ''gantt-rankPlans'' = None
   \<and> localStorage (fst (handleClearStorage True w)) ''gantt-assignments'' = None
   \<and> localStorage (fst (handleClearStorage True w)) ''gantt-markers'' = None
   \<and> localStorage (clearCommand rt True w) ''gantt-ranks'' = Some (JSON_text rt (VArr []))
   \<and> localStorage (clearCommand rt True w) ''gantt-rankPlans'' = Some (JSON_text rt (VArr []))
   \<and> localStorage (clearCommand rt True w) ''gantt-assignments'' = Some (JSON_text rt (VArr []))
   \<and> localStorage (clearCommand rt True w) ''gantt-markers'' = Some (JSON_text rt (VArr []))"
  by (simp add: clearCommand_def handleClearStorage_def runEffects_def persistEffect_def
      saveToStorage_empty removeItem_def)

end
